theory Spec2Isabelle
  imports Complex_Main "HOL-Library.Word"
begin

section \<open>Forward-mode dual numbers of forward.hpp\<close>

text \<open>
  Numbers are modelled by exact reals. Where IEEE arithmetic would leave the finite
  numbers (a division by zero, a logarithm or root outside its domain) the model returns
  the failure \<open>NotFinite\<close> instead of a real. A call that the templates of the header
  reject (no viable overload, a failed instantiation) is the failure \<open>IllFormed\<close>.
\<close>

datatype failure = NotFinite | IllFormed

subsection \<open>Duals of any order: \<open>Dual<T, G>\<close>\<close>

text \<open>
  The type arguments of \<open>Dual<T, G>\<close>: \<open>double\<close>, or again a dual.
  \<open>HigherOrderDual<N>\<close> is the \<open>N\<close>-fold nesting.
\<close>

datatype dtype = TDouble | TDual dtype dtype

datatype hdual = Scalar real | HDual (hval: hdual) (hgrad: hdual)

fun dtype_of :: "hdual \<Rightarrow> dtype" where
  "dtype_of (Scalar c) = TDouble"
| "dtype_of (HDual v g) = TDual (dtype_of v) (dtype_of g)"

fun HigherOrderDual :: "nat \<Rightarrow> dtype" where
  "HigherOrderDual 0 = TDouble"
| "HigherOrderDual (Suc n) = TDual (HigherOrderDual n) (HigherOrderDual n)"

text \<open>
  \<open>Dual(const U& val) : val(val), grad(0)\<close> for a number \<open>val\<close>; a member that is
  itself a dual is initialised by the same constructor. For \<open>double\<close> the member is
  the number.
\<close>

fun Dual_number :: "dtype \<Rightarrow> real \<Rightarrow> hdual" where
  "Dual_number TDouble c = Scalar c"
| "Dual_number (TDual T G) c = HDual (Dual_number T c) (Dual_number G 0)"

text \<open>\<open>Dual() : Dual(0.0) {}\<close>, the default constructor of \<open>Dual<T, G>\<close>.\<close>

definition Dual_default :: "dtype \<Rightarrow> dtype \<Rightarrow> hdual" where
  "Dual_default T G = Dual_number (TDual T G) 0"

text \<open>Every number stored in a dual is zero.\<close>

fun all_zero :: "hdual \<Rightarrow> bool" where
  "all_zero (Scalar c) = (c = 0)"
| "all_zero (HDual v g) = (all_zero v \<and> all_zero g)"

text \<open>
  \<open>derivative<order>(const Dual<T, G>& dual)\<close>. The order is a \<open>std::size_t\<close>, so
  \<open>order - 1\<close> wraps. The body is

  \<^verbatim>\<open>if constexpr (order == 0) return dual.val;\<close>
  \<^verbatim>\<open>if constexpr (order == 1) return dual.grad;\<close>
  \<^verbatim>\<open>else return derivative<order - 1>(dual.grad);\<close>

  The first \<open>if constexpr\<close> has no else branch, so for order 0 the else branch of the
  second one is instantiated as well: \<open>derivative<order - 1>(dual.grad)\<close> must be
  well formed and both return statements must deduce one type. No overload of
  \<open>derivative<order>\<close> takes a plain number.
\<close>

fun derivative :: "64 word \<Rightarrow> hdual \<Rightarrow> failure + hdual" where
  "derivative order (Scalar c) = Inl IllFormed"
| "derivative order (HDual v g) =
     (if order = 0 then
        (case derivative (order - 1) g of
           Inl f \<Rightarrow> Inl f
         | Inr r \<Rightarrow> if dtype_of r = dtype_of v then Inr v else Inl IllFormed)
      else if order = 1 then Inr g
      else derivative (order - 1) g)"

text \<open>Peeling \<open>n\<close> levels of \<open>.grad\<close> off a dual, where the nesting is deep enough.\<close>

fun peel_grad :: "nat \<Rightarrow> hdual \<Rightarrow> hdual option" where
  "peel_grad 0 d = Some d"
| "peel_grad (Suc n) (Scalar c) = None"
| "peel_grad (Suc n) (HDual v g) = peel_grad n g"

subsection \<open>Seeding: \<open>seed\<close>, \<open>unseed\<close>, \<open>derivative(f, wrt, args...)\<close>\<close>

text \<open>
  \<open>val(dual)\<close>: the innermost number of a dual, through every \<open>.val\<close>.
\<close>

fun val_h :: "hdual \<Rightarrow> real" where
  "val_h (Scalar c) = c"
| "val_h (HDual v g) = val_h v"

text \<open>
  \<open>self = number\<close> on a member: a \<open>double\<close> takes the number; a dual runs
  \<open>assign(self, number)\<close>, which is \<open>self.val = other; self.grad = 0.0\<close>.
\<close>

fun assign_number :: "hdual \<Rightarrow> real \<Rightarrow> hdual" where
  "assign_number (Scalar c0) c = Scalar c"
| "assign_number (HDual v g) c = HDual (assign_number v c) (assign_number g 0)"

text \<open>The sub-object \<open>d.val.val...val\<close> with \<open>k\<close> projections, when \<open>d\<close> nests so deep.\<close>

fun val_level :: "nat \<Rightarrow> hdual \<Rightarrow> hdual option" where
  "val_level 0 d = Some d"
| "val_level (Suc k) (Scalar c) = None"
| "val_level (Suc k) (HDual v g) = val_level k v"

text \<open>
  \<open>dual.grad = num\<close> where \<open>dual\<close> is the sub-object \<open>d.val...val\<close> (\<open>k\<close>
  projections). A number has no member \<open>val\<close>, and \<open>internal::seed\<close> is enabled for
  duals only.
\<close>

fun set_grad_level :: "nat \<Rightarrow> real \<Rightarrow> hdual \<Rightarrow> failure + hdual" where
  "set_grad_level k num (Scalar c) = Inl IllFormed"
| "set_grad_level 0 num (HDual v g) = Inr (HDual v (assign_number g num))"
| "set_grad_level (Suc k) num (HDual v g) =
     (case set_grad_level k num v of
        Inl f \<Rightarrow> Inl f
      | Inr v' \<Rightarrow> Inr (HDual v' g))"

text \<open>
  The caller's variables, by index. A \<open>wrt\<close> tuple is the list of the variables it
  refers to; a variable may occur twice, as in \<open>wrt(x, x)\<close>.
\<close>

type_synonym hstore = "nat \<Rightarrow> hdual"

text \<open>
  \<open>internal::seed<num>(dual, duals...)\<close>: \<open>seed<num>(duals.val...); dual.grad = num;\<close>
  and \<open>dual.grad = num\<close> for one argument. The arguments of the recursive call are the
  \<open>.val\<close> members, so the call at depth \<open>k\<close> works on \<open>x.val...val\<close> with \<open>k\<close>
  projections. With no argument there is nothing to call.
\<close>

fun internal_seed :: "real \<Rightarrow> nat \<Rightarrow> nat list \<Rightarrow> hstore \<Rightarrow> failure + hstore" where
  "internal_seed num k [] s = Inl IllFormed"
| "internal_seed num k [x] s =
     (case set_grad_level k num (s x) of
        Inl f \<Rightarrow> Inl f
      | Inr d \<Rightarrow> Inr (s(x := d)))"
| "internal_seed num k (x # y # ys) s =
     (case internal_seed num (Suc k) (y # ys) s of
        Inl f \<Rightarrow> Inl f
      | Inr s1 \<Rightarrow>
          (case set_grad_level k num (s1 x) of
             Inl f \<Rightarrow> Inl f
           | Inr d \<Rightarrow> Inr (s1(x := d))))"

text \<open>
  \<open>seed(wrt)\<close> and \<open>unseed(wrt)\<close>. For a tuple of one variable both overloads of
  \<open>seed\<close> are viable and the one for \<open>std::tuple<Arg&>\<close> is the more specialised: it
  calls \<open>internal::seed<1>(std::get<0>(dual))\<close>. For any other tuple the overload for
  \<open>std::tuple<Args&...>\<close> is the only one, and its body is
  \<open>std::apply(internal::seed<1, Args&...>, duals)\<close>: the template-id names the two
  function templates \<open>internal::seed\<close>, the second of which ends in a parameter pack, so
  it denotes a set of overloads and no function, and the parameter of \<open>std::apply\<close>
  cannot be deduced from it. The instantiation is ill-formed. \<open>unseed\<close> is the same
  with \<open>internal::seed<0>\<close>.
\<close>

definition seed :: "nat list \<Rightarrow> hstore \<Rightarrow> failure + hstore" where
  "seed wrt s = (case wrt of [x] \<Rightarrow> internal_seed 1 0 [x] s | _ \<Rightarrow> Inl IllFormed)"

definition unseed :: "nat list \<Rightarrow> hstore \<Rightarrow> failure + hstore" where
  "unseed wrt s = (case wrt of [x] \<Rightarrow> internal_seed 0 0 [x] s | _ \<Rightarrow> Inl IllFormed)"

text \<open>
  \<open>derivative(f, wrt, args...)\<close>: seed, call \<open>f\<close>, unseed, and return
  \<open>derivative<N>(res)\<close> for the \<open>N\<close> variables of \<open>wrt\<close>. The function receives its
  arguments by reference, so it is a function of the variables that returns them with
  its result.
\<close>

definition derivative_wrt ::
  "(hstore \<Rightarrow> hstore \<times> hdual) \<Rightarrow> nat list \<Rightarrow> hstore \<Rightarrow> failure + (hstore \<times> hdual)" where
  "derivative_wrt f wrt s =
     (case seed wrt s of
        Inl e \<Rightarrow> Inl e
      | Inr s1 \<Rightarrow>
          (case unseed wrt (fst (f s1)) of
             Inl e \<Rightarrow> Inl e
           | Inr s3 \<Rightarrow>
               (case derivative (of_nat (length wrt)) (snd (f s1)) of
                  Inl e \<Rightarrow> Inl e
                | Inr r \<Rightarrow> Inr (s3, r))))"

subsection \<open>The first-order dual \<open>dual = Dual<double, double>\<close> and expression trees\<close>

record dual =
  val :: real
  grad :: real

text \<open>
  Duals live in a store. \<open>Var\<close> cells are the caller's variables; \<open>Tmp\<close> cells are
  the temporaries of the reduction engine (a local \<open>Dual<T, G> tmp;\<close>, the result of
  \<open>eval\<close>), numbered by the nesting depth at which they are created.
\<close>

datatype cell = Var nat | Tmp nat

type_synonym store = "cell \<Rightarrow> dual"

text \<open>
  A dual operand of a node is held by reference (\<open>R = dual&\<close>, an lvalue operand) or by
  value (an rvalue operand).
\<close>

datatype operand = Ref cell | Held dual

datatype uop = NegOp | InvOp | SinOp | CosOp | TanOp | ArcSinOp | ArcCosOp | ArcTanOp
  | ExpOp | LogOp | Log10Op | SqrtOp | AbsOp

text \<open>
  A tree is a number, a dual, or one of the node types \<open>NumberDualMulExpr\<close>,
  \<open>UnaryExpr<Op, R>\<close>, \<open>AddExpr\<close>, \<open>MulExpr\<close>, \<open>PowExpr\<close>. Nodes are the
  temporaries of one statement and hold their sub-nodes by value.
\<close>

datatype expr =
    Number real
  | DualExpr operand
  | NumberDualMulExpr real operand
  | UnaryExpr uop expr
  | AddExpr expr expr
  | MulExpr expr expr
  | PowExpr expr expr

text \<open>Sequencing of steps that may fail.\<close>

definition bnd :: "failure + 'a \<Rightarrow> ('a \<Rightarrow> failure + 'b) \<Rightarrow> failure + 'b" where
  "bnd m f = (case m of Inl e \<Rightarrow> Inl e | Inr x \<Rightarrow> f x)"

definition fdiv :: "real \<Rightarrow> real \<Rightarrow> failure + real" where
  "fdiv a b = (if b = 0 then Inl NotFinite else Inr (a / b))"

definition fsqrt :: "real \<Rightarrow> failure + real" where
  "fsqrt a = (if a < 0 then Inl NotFinite else Inr (sqrt a))"

definition flog :: "real \<Rightarrow> failure + real" where
  "flog a = (if a \<le> 0 then Inl NotFinite else Inr (ln a))"

definition flog10 :: "real \<Rightarrow> failure + real" where
  "flog10 a = (if a \<le> 0 then Inl NotFinite else Inr (log 10 a))"

definition fasin :: "real \<Rightarrow> failure + real" where
  "fasin a = (if \<bar>a\<bar> \<le> 1 then Inr (arcsin a) else Inl NotFinite)"

definition facos :: "real \<Rightarrow> failure + real" where
  "facos a = (if \<bar>a\<bar> \<le> 1 then Inr (arccos a) else Inl NotFinite)"

definition fpow :: "real \<Rightarrow> real \<Rightarrow> failure + real" where
  "fpow x y =
     (if 0 < x then Inr (x powr y)
      else if x = 0 then (if 0 < y then Inr 0 else if y = 0 then Inr 1 else Inl NotFinite)
      else if y = of_int \<lfloor>y\<rfloor> then
        (if 0 \<le> y then Inr (x ^ nat \<lfloor>y\<rfloor>) else Inr (1 / x ^ nat \<lfloor>- y\<rfloor>))
      else Inl NotFinite)"

definition ln10 :: real where
  "ln10 = ln 10"

definition set_val :: "store \<Rightarrow> cell \<Rightarrow> real \<Rightarrow> store" where
  "set_val s c v = s(c := (s c)\<lparr>val := v\<rparr>)"

definition set_grad :: "store \<Rightarrow> cell \<Rightarrow> real \<Rightarrow> store" where
  "set_grad s c g = s(c := (s c)\<lparr>grad := g\<rparr>)"

fun rd :: "store \<Rightarrow> operand \<Rightarrow> dual" where
  "rd s (Ref c) = s c"
| "rd s (Held d) = d"

definition Dual0 :: dual where
  "Dual0 = \<lparr>val = 0, grad = 0\<rparr>"

definition negate :: "store \<Rightarrow> cell \<Rightarrow> store" where
  "negate s self =
     (let s1 = set_val s self (- val (s self))
      in set_grad s1 self (- grad (s1 self)))"

definition scale :: "store \<Rightarrow> cell \<Rightarrow> real \<Rightarrow> store" where
  "scale s self c =
     (let s1 = set_val s self (val (s self) * c)
      in set_grad s1 self (grad (s1 self) * c))"

fun apply_op :: "uop \<Rightarrow> dual \<Rightarrow> failure + dual" where
  "apply_op NegOp d = Inr \<lparr>val = - val d, grad = - grad d\<rparr>"
| "apply_op InvOp d =
     bnd (fdiv 1 (val d)) (\<lambda>v. Inr \<lparr>val = v, grad = grad d * (- v * v)\<rparr>)"
| "apply_op SinOp d = Inr \<lparr>val = sin (val d), grad = grad d * cos (val d)\<rparr>"
| "apply_op CosOp d = Inr \<lparr>val = cos (val d), grad = grad d * (- sin (val d))\<rparr>"
| "apply_op TanOp d =
     bnd (fdiv 1 (cos (val d))) (\<lambda>aux.
       Inr \<lparr>val = tan (val d), grad = grad d * (aux * aux)\<rparr>)"
| "apply_op ArcSinOp d =
     bnd (fsqrt (1 - val d * val d)) (\<lambda>r. bnd (fdiv 1 r) (\<lambda>aux.
       bnd (fasin (val d)) (\<lambda>v. Inr \<lparr>val = v, grad = grad d * aux\<rparr>)))"
| "apply_op ArcCosOp d =
     bnd (fsqrt (1 - val d * val d)) (\<lambda>r. bnd (fdiv (- 1) r) (\<lambda>aux.
       bnd (facos (val d)) (\<lambda>v. Inr \<lparr>val = v, grad = grad d * aux\<rparr>)))"
| "apply_op ArcTanOp d =
     bnd (fdiv 1 (1 + val d * val d)) (\<lambda>aux.
       Inr \<lparr>val = arctan (val d), grad = grad d * aux\<rparr>)"
| "apply_op ExpOp d = Inr \<lparr>val = exp (val d), grad = grad d * exp (val d)\<rparr>"
| "apply_op LogOp d =
     bnd (fdiv 1 (val d)) (\<lambda>aux. bnd (flog (val d)) (\<lambda>v.
       Inr \<lparr>val = v, grad = grad d * aux\<rparr>))"
| "apply_op Log10Op d =
     bnd (fdiv 1 (ln10 * val d)) (\<lambda>aux. bnd (flog10 (val d)) (\<lambda>v.
       Inr \<lparr>val = v, grad = grad d * aux\<rparr>))"
| "apply_op SqrtOp d =
     bnd (fsqrt (val d)) (\<lambda>v. bnd (fdiv 0.5 v) (\<lambda>q.
       Inr \<lparr>val = v, grad = grad d * q\<rparr>))"
| "apply_op AbsOp d =
     bnd (fdiv (val d) \<bar>val d\<bar>) (\<lambda>q.
       Inr \<lparr>val = \<bar>val d\<bar>, grad = grad d * q\<rparr>)"

definition apply_cell :: "uop \<Rightarrow> store \<Rightarrow> cell \<Rightarrow> failure + store" where
  "apply_cell op s self = bnd (apply_op op (s self)) (\<lambda>d. Inr (s(self := d)))"

definition assign_num :: "store \<Rightarrow> cell \<Rightarrow> real \<Rightarrow> store" where
  "assign_num s self c = set_grad (set_val s self c) self 0"

definition assign_dual :: "store \<Rightarrow> cell \<Rightarrow> operand \<Rightarrow> store" where
  "assign_dual s self d =
     (let s1 = set_val s self (val (rd s d))
      in set_grad s1 self (grad (rd s1 d)))"

definition assignAdd_num :: "store \<Rightarrow> cell \<Rightarrow> real \<Rightarrow> store" where
  "assignAdd_num s self c = set_val s self (val (s self) + c)"

definition assignAdd_dual :: "store \<Rightarrow> cell \<Rightarrow> operand \<Rightarrow> store" where
  "assignAdd_dual s self d =
     (let s1 = set_val s self (val (s self) + val (rd s d))
      in set_grad s1 self (grad (s1 self) + grad (rd s1 d)))"

definition assignAdd_ndm :: "store \<Rightarrow> cell \<Rightarrow> real \<Rightarrow> operand \<Rightarrow> store" where
  "assignAdd_ndm s self c d =
     (let s1 = set_val s self (val (s self) + c * val (rd s d))
      in set_grad s1 self (grad (s1 self) + c * grad (rd s1 d)))"

definition assignAddNegativeDual :: "store \<Rightarrow> cell \<Rightarrow> operand \<Rightarrow> store" where
  "assignAddNegativeDual s self t =
     (let s1 = set_val s self (val (s self) - val (rd s t))
      in set_grad s1 self (grad (s1 self) - grad (rd s1 t)))"

definition assignAddInverseDual :: "store \<Rightarrow> cell \<Rightarrow> operand \<Rightarrow> failure + store" where
  "assignAddInverseDual s self t =
     bnd (fdiv 1 (val (rd s t))) (\<lambda>aux.
       let s1 = set_val s self (val (s self) + aux)
       in Inr (set_grad s1 self (grad (s1 self) - aux * aux * grad (rd s1 t))))"

definition assignSub_num :: "store \<Rightarrow> cell \<Rightarrow> real \<Rightarrow> store" where
  "assignSub_num s self c = set_val s self (val (s self) - c)"

definition assignSub_dual :: "store \<Rightarrow> cell \<Rightarrow> operand \<Rightarrow> store" where
  "assignSub_dual s self d =
     (let s1 = set_val s self (val (s self) - val (rd s d))
      in set_grad s1 self (grad (s1 self) - grad (rd s1 d)))"

definition assignMul_num :: "store \<Rightarrow> cell \<Rightarrow> real \<Rightarrow> store" where
  "assignMul_num s self c =
     (let s1 = set_val s self (val (s self) * c)
      in set_grad s1 self (grad (s1 self) * c))"

definition assignMul_dual :: "store \<Rightarrow> cell \<Rightarrow> operand \<Rightarrow> store" where
  "assignMul_dual s self d =
     (let s1 = set_grad s self (grad (s self) * val (rd s d));
          s2 = set_grad s1 self (grad (s1 self) + val (s1 self) * grad (rd s1 d))
      in set_val s2 self (val (s2 self) * val (rd s2 d)))"

definition assignMul_ndm :: "store \<Rightarrow> cell \<Rightarrow> real \<Rightarrow> operand \<Rightarrow> store" where
  "assignMul_ndm s self c d =
     (let s1 = set_val s self (val (s self) * c);
          s2 = set_grad s1 self (grad (s1 self) * c);
          s3 = set_grad s2 self (grad (s2 self) * val (rd s2 d));
          s4 = set_grad s3 self (grad (s3 self) + val (s3 self) * grad (rd s3 d))
      in set_val s4 self (val (s4 self) * val (rd s4 d)))"

definition assignDiv_num :: "store \<Rightarrow> cell \<Rightarrow> real \<Rightarrow> failure + store" where
  "assignDiv_num s self c = bnd (fdiv 1 c) (\<lambda>aux. Inr (assignMul_num s self aux))"

definition assignDiv_dual :: "store \<Rightarrow> cell \<Rightarrow> operand \<Rightarrow> failure + store" where
  "assignDiv_dual s self d =
     bnd (fdiv 1 (val (rd s d))) (\<lambda>aux.
       let s1 = set_val s self (val (s self) * aux);
           s2 = set_grad s1 self (grad (s1 self) - val (s1 self) * grad (rd s1 d))
       in Inr (set_grad s2 self (grad (s2 self) * aux)))"

definition assignPow_num :: "store \<Rightarrow> cell \<Rightarrow> real \<Rightarrow> failure + store" where
  "assignPow_num s self c =
     bnd (fpow (val (s self)) c) (\<lambda>aux.
     bnd (fdiv c (val (s self))) (\<lambda>q.
       let s1 = set_grad s self (grad (s self) * (q * aux))
       in Inr (set_val s1 self aux)))"

definition assignPow_dual :: "store \<Rightarrow> cell \<Rightarrow> operand \<Rightarrow> failure + store" where
  "assignPow_dual s self d =
     bnd (fpow (val (s self)) (val (rd s d))) (\<lambda>aux1.
     bnd (flog (val (s self))) (\<lambda>aux2.
     bnd (fdiv (val (rd s d)) (val (s self))) (\<lambda>q.
       let s1 = set_grad s self (grad (s self) * q);
           s2 = set_grad s1 self (grad (s1 self) + aux2 * grad (rd s1 d));
           s3 = set_grad s2 self (grad (s2 self) * aux1)
       in Inr (set_val s3 self aux1))))"

fun rank :: "bool \<Rightarrow> expr \<Rightarrow> nat" where
  "rank b (Number c) = 0"
| "rank b (DualExpr d) = 0"
| "rank b (NumberDualMulExpr c d) = (if b then 3 else 0)"
| "rank b e = 3"

function (sequential) assign :: "store \<Rightarrow> cell \<Rightarrow> expr \<Rightarrow> nat \<Rightarrow> failure + store"
and assign_tmp :: "store \<Rightarrow> cell \<Rightarrow> expr \<Rightarrow> cell \<Rightarrow> nat \<Rightarrow> failure + store"
and eval :: "store \<Rightarrow> expr \<Rightarrow> nat \<Rightarrow> failure + store"
and assignAdd :: "store \<Rightarrow> cell \<Rightarrow> expr \<Rightarrow> nat \<Rightarrow> failure + store"
and assignAdd_tmp :: "store \<Rightarrow> cell \<Rightarrow> expr \<Rightarrow> cell \<Rightarrow> nat \<Rightarrow> failure + store"
and assignMul :: "store \<Rightarrow> cell \<Rightarrow> expr \<Rightarrow> nat \<Rightarrow> failure + store"
and assignMul_tmp :: "store \<Rightarrow> cell \<Rightarrow> expr \<Rightarrow> cell \<Rightarrow> nat \<Rightarrow> failure + store"
and assignPow :: "store \<Rightarrow> cell \<Rightarrow> expr \<Rightarrow> nat \<Rightarrow> failure + store"
and assignPow_tmp :: "store \<Rightarrow> cell \<Rightarrow> expr \<Rightarrow> cell \<Rightarrow> nat \<Rightarrow> failure + store"
where
  "assign s self (Number c) n = Inr (assign_num s self c)"
| "assign s self (DualExpr d) n = Inr (assign_dual s self d)"
| "assign s self (NumberDualMulExpr c d) n = Inr (scale (assign_dual s self d) self c)"
| "assign s self (UnaryExpr op r) n =
     (case assign s self r n of Inl f \<Rightarrow> Inl f | Inr s1 \<Rightarrow> apply_cell op s1 self)"
| "assign s self (AddExpr l r) n =
     (case assign s self r n of Inl f \<Rightarrow> Inl f | Inr s1 \<Rightarrow> assignAdd s1 self l n)"
| "assign s self (MulExpr l r) n =
     (case assign s self r n of Inl f \<Rightarrow> Inl f | Inr s1 \<Rightarrow> assignMul s1 self l n)"
| "assign s self (PowExpr l r) n =
     (case assign s self l n of Inl f \<Rightarrow> Inl f | Inr s1 \<Rightarrow> assignPow s1 self r n)"

| "assign_tmp s self (Number c) t n = assign s self (Number c) n"
| "assign_tmp s self (DualExpr d) t n = assign s self (DualExpr d) n"
| "assign_tmp s self (NumberDualMulExpr c d) t n = assign s self (NumberDualMulExpr c d) n"
| "assign_tmp s self (UnaryExpr op r) t n =
     (case assign_tmp s self r t n of Inl f \<Rightarrow> Inl f | Inr s1 \<Rightarrow> apply_cell op s1 self)"
| "assign_tmp s self (AddExpr l r) t n =
     (case assign_tmp s self r t n of Inl f \<Rightarrow> Inl f | Inr s1 \<Rightarrow> assignAdd_tmp s1 self l t n)"
| "assign_tmp s self (MulExpr l r) t n =
     (case assign_tmp s self r t n of Inl f \<Rightarrow> Inl f | Inr s1 \<Rightarrow> assignMul_tmp s1 self l t n)"
| "assign_tmp s self (PowExpr l r) t n =
     (case assign_tmp s self l t n of Inl f \<Rightarrow> Inl f | Inr s1 \<Rightarrow> assignPow_tmp s1 self r t n)"

| "eval s (Number c) n = Inl IllFormed"
| "eval s (DualExpr d) n = Inr (s(Tmp n := rd s d))"
| "eval s (NumberDualMulExpr c d) n = assign s (Tmp n) (NumberDualMulExpr c d) (Suc n)"
| "eval s (UnaryExpr op r) n = assign s (Tmp n) (UnaryExpr op r) (Suc n)"
| "eval s (AddExpr l r) n = assign s (Tmp n) (AddExpr l r) (Suc n)"
| "eval s (MulExpr l r) n = assign s (Tmp n) (MulExpr l r) (Suc n)"
| "eval s (PowExpr l r) n = assign s (Tmp n) (PowExpr l r) (Suc n)"

| "assignAdd s self (Number c) n = Inr (assignAdd_num s self c)"
| "assignAdd s self (DualExpr d) n = Inr (assignAdd_dual s self d)"
| "assignAdd s self (NumberDualMulExpr c d) n = Inr (assignAdd_ndm s self c d)"
| "assignAdd s self (UnaryExpr op r) n =
     (if op = NegOp then
        (case eval s r n of Inl f \<Rightarrow> Inl f
         | Inr s1 \<Rightarrow> Inr (assignAddNegativeDual s1 self (Ref (Tmp n))))
      else if op = InvOp then
        (case eval s r n of Inl f \<Rightarrow> Inl f
         | Inr s1 \<Rightarrow> assignAddInverseDual s1 self (Ref (Tmp n)))
      else assignAdd_tmp (s(Tmp n := Dual0)) self (UnaryExpr op r) (Tmp n) (Suc n))"
| "assignAdd s self (AddExpr l r) n =
     (case assignAdd s self l n of Inl f \<Rightarrow> Inl f | Inr s1 \<Rightarrow> assignAdd s1 self r n)"
| "assignAdd s self (MulExpr l r) n = assignAdd_tmp (s(Tmp n := Dual0)) self (MulExpr l r) (Tmp n) (Suc n)"
| "assignAdd s self (PowExpr l r) n = assignAdd_tmp (s(Tmp n := Dual0)) self (PowExpr l r) (Tmp n) (Suc n)"

| "assignAdd_tmp s self (Number c) t n = Inr (assignAdd_num s self c)"
| "assignAdd_tmp s self (DualExpr d) t n = assignAdd s self (DualExpr d) n"
| "assignAdd_tmp s self (NumberDualMulExpr c d) t n = assignAdd s self (NumberDualMulExpr c d) n"
| "assignAdd_tmp s self (UnaryExpr op r) t n =
     (if op = NegOp then
        (case eval s r n of Inl f \<Rightarrow> Inl f
         | Inr s1 \<Rightarrow> Inr (assignAddNegativeDual (assign_dual s1 t (Ref (Tmp n))) self (Ref t)))
      else if op = InvOp then
        (case eval s r n of Inl f \<Rightarrow> Inl f
         | Inr s1 \<Rightarrow> assignAddInverseDual (assign_dual s1 t (Ref (Tmp n))) self (Ref t))
      else
        (case assign s t (UnaryExpr op r) n of Inl f \<Rightarrow> Inl f
         | Inr s1 \<Rightarrow> Inr (assignAdd_dual s1 self (Ref t))))"
| "assignAdd_tmp s self (AddExpr l r) t n =
     (case assignAdd_tmp s self l t n of Inl f \<Rightarrow> Inl f | Inr s1 \<Rightarrow> assignAdd_tmp s1 self r t n)"
| "assignAdd_tmp s self (MulExpr l r) t n =
     (case assign s t (MulExpr l r) n of Inl f \<Rightarrow> Inl f
      | Inr s1 \<Rightarrow> Inr (assignAdd_dual s1 self (Ref t)))"
| "assignAdd_tmp s self (PowExpr l r) t n =
     (case assign s t (PowExpr l r) n of Inl f \<Rightarrow> Inl f
      | Inr s1 \<Rightarrow> Inr (assignAdd_dual s1 self (Ref t)))"

| "assignMul s self (Number c) n = Inr (assignMul_num s self c)"
| "assignMul s self (DualExpr d) n = Inr (assignMul_dual s self d)"
| "assignMul s self (NumberDualMulExpr c d) n = Inr (assignMul_ndm s self c d)"
| "assignMul s self (UnaryExpr op r) n =
     (if op = NegOp then
        (case assignMul s self r n of Inl f \<Rightarrow> Inl f | Inr s1 \<Rightarrow> Inr (negate s1 self))
      else assignMul_tmp (s(Tmp n := Dual0)) self (UnaryExpr op r) (Tmp n) (Suc n))"
| "assignMul s self (MulExpr l r) n =
     (case assignMul s self l n of Inl f \<Rightarrow> Inl f | Inr s1 \<Rightarrow> assignMul s1 self r n)"
| "assignMul s self (AddExpr l r) n = assignMul_tmp (s(Tmp n := Dual0)) self (AddExpr l r) (Tmp n) (Suc n)"
| "assignMul s self (PowExpr l r) n = assignMul_tmp (s(Tmp n := Dual0)) self (PowExpr l r) (Tmp n) (Suc n)"

| "assignMul_tmp s self (Number c) t n = assignMul s self (Number c) n"
| "assignMul_tmp s self (DualExpr d) t n = assignMul s self (DualExpr d) n"
| "assignMul_tmp s self (NumberDualMulExpr c d) t n = assignMul s self (NumberDualMulExpr c d) n"
| "assignMul_tmp s self (UnaryExpr op r) t n =
     (if op = NegOp then
        (case assignMul_tmp s self r t n of Inl f \<Rightarrow> Inl f | Inr s1 \<Rightarrow> Inr (negate s1 self))
      else
        (case assign s t (UnaryExpr op r) n of Inl f \<Rightarrow> Inl f
         | Inr s1 \<Rightarrow> Inr (assignMul_dual s1 self (Ref t))))"
| "assignMul_tmp s self (MulExpr l r) t n =
     (case assignMul_tmp s self l t n of Inl f \<Rightarrow> Inl f | Inr s1 \<Rightarrow> assignMul_tmp s1 self r t n)"
| "assignMul_tmp s self (AddExpr l r) t n =
     (case assign s t (AddExpr l r) n of Inl f \<Rightarrow> Inl f
      | Inr s1 \<Rightarrow> Inr (assignMul_dual s1 self (Ref t)))"
| "assignMul_tmp s self (PowExpr l r) t n =
     (case assign s t (PowExpr l r) n of Inl f \<Rightarrow> Inl f
      | Inr s1 \<Rightarrow> Inr (assignMul_dual s1 self (Ref t)))"

| "assignPow s self (Number c) n = assignPow_num s self c"
| "assignPow s self (DualExpr d) n = assignPow_dual s self d"
| "assignPow s self (NumberDualMulExpr c d) n =
     (case eval s (NumberDualMulExpr c d) n of Inl f \<Rightarrow> Inl f
      | Inr s1 \<Rightarrow> assignPow_dual s1 self (Ref (Tmp n)))"
| "assignPow s self (UnaryExpr op r) n =
     (case eval s (UnaryExpr op r) n of Inl f \<Rightarrow> Inl f
      | Inr s1 \<Rightarrow> assignPow_dual s1 self (Ref (Tmp n)))"
| "assignPow s self (AddExpr l r) n =
     (case eval s (AddExpr l r) n of Inl f \<Rightarrow> Inl f
      | Inr s1 \<Rightarrow> assignPow_dual s1 self (Ref (Tmp n)))"
| "assignPow s self (MulExpr l r) n =
     (case eval s (MulExpr l r) n of Inl f \<Rightarrow> Inl f
      | Inr s1 \<Rightarrow> assignPow_dual s1 self (Ref (Tmp n)))"
| "assignPow s self (PowExpr l r) n =
     (case eval s (PowExpr l r) n of Inl f \<Rightarrow> Inl f
      | Inr s1 \<Rightarrow> assignPow_dual s1 self (Ref (Tmp n)))"

| "assignPow_tmp s self (Number c) t n = assignPow s self (Number c) n"
| "assignPow_tmp s self (DualExpr d) t n = assignPow s self (DualExpr d) n"
| "assignPow_tmp s self (NumberDualMulExpr c d) t n =
     (case assign s t (NumberDualMulExpr c d) n of Inl f \<Rightarrow> Inl f
      | Inr s1 \<Rightarrow> assignPow_dual s1 self (Ref t))"
| "assignPow_tmp s self (UnaryExpr op r) t n =
     (case assign s t (UnaryExpr op r) n of Inl f \<Rightarrow> Inl f
      | Inr s1 \<Rightarrow> assignPow_dual s1 self (Ref t))"
| "assignPow_tmp s self (AddExpr l r) t n =
     (case assign s t (AddExpr l r) n of Inl f \<Rightarrow> Inl f
      | Inr s1 \<Rightarrow> assignPow_dual s1 self (Ref t))"
| "assignPow_tmp s self (MulExpr l r) t n =
     (case assign s t (MulExpr l r) n of Inl f \<Rightarrow> Inl f
      | Inr s1 \<Rightarrow> assignPow_dual s1 self (Ref t))"
| "assignPow_tmp s self (PowExpr l r) t n =
     (case assign s t (PowExpr l r) n of Inl f \<Rightarrow> Inl f
      | Inr s1 \<Rightarrow> assignPow_dual s1 self (Ref t))"
  by pat_completeness auto

termination
  by (relation "measure (case_sum
        (case_sum
          (case_sum (\<lambda>(s, self, e, n). 4 * size e) (\<lambda>(s, self, e, t, n). 4 * size e + 1))
          (case_sum (\<lambda>(s, e, n). 4 * size e + 1) (\<lambda>(s, self, e, n). 4 * size e + min 3 (rank False e))))
        (case_sum
          (case_sum (\<lambda>(s, self, e, t, n). 4 * size e + 2) (\<lambda>(s, self, e, n). 4 * size e + min 3 (rank False e)))
          (case_sum (\<lambda>(s, self, e, t, n). 4 * size e + 2)
            (case_sum (\<lambda>(s, self, e, n). 4 * size e + min 3 (rank True e)) (\<lambda>(s, self, e, t, n). 4 * size e + 2)))))")
     auto

subsection \<open>Subtraction and division: \<open>assignSub\<close>, \<open>assignDiv\<close>\<close>

text \<open>
  A function that returns \<open>expr.r\<close> or \<open>std::forward<R>(expr.r)\<close> with return type
  \<open>auto\<close> returns by value: a dual operand held by reference is copied.
\<close>

fun by_value :: "store \<Rightarrow> expr \<Rightarrow> expr" where
  "by_value s (DualExpr d) = DualExpr (Held (rd s d))"
| "by_value s e = e"

text \<open>
  \<open>negative(expr)\<close>. The overload that would wrap an expression into a \<open>NegExpr\<close> is
  declared with the template parameters
  \<^verbatim>\<open>typename R, enableif<isExpr<R>>..., disableif<isNegExpr<R>>\<close>:
  the last one is not a pack (its \<open>...\<close> is missing), so it is a single unnamed
  parameter that no call can deduce and that has no default, and the overload is never
  viable. The other overload takes a \<open>NegExpr\<close> only and returns \<open>expr.r\<close>.
\<close>

fun negative :: "store \<Rightarrow> expr \<Rightarrow> failure + expr" where
  "negative s (UnaryExpr op r) = (if op = NegOp then Inr (by_value s r) else Inl IllFormed)"
| "negative s e = Inl IllFormed"

text \<open>
  \<open>inverse(expr)\<close>: the operand of an \<open>InvExpr\<close>, and an \<open>InvExpr\<close> around anything
  else.
\<close>

fun inverse_expr :: "store \<Rightarrow> expr \<Rightarrow> expr" where
  "inverse_expr s (UnaryExpr op r) =
     (if op = InvOp then by_value s r else UnaryExpr InvOp (UnaryExpr op r))"
| "inverse_expr s e = UnaryExpr InvOp e"

fun assignSub :: "store \<Rightarrow> cell \<Rightarrow> expr \<Rightarrow> nat \<Rightarrow> failure + store" where
  "assignSub s self (Number c) n = Inr (assignSub_num s self c)"
| "assignSub s self (DualExpr d) n = Inr (assignSub_dual s self d)"
| "assignSub s self e n = bnd (negative s e) (\<lambda>e'. assignAdd s self e' n)"

fun assignSub_tmp :: "store \<Rightarrow> cell \<Rightarrow> expr \<Rightarrow> cell \<Rightarrow> nat \<Rightarrow> failure + store" where
  "assignSub_tmp s self (Number c) t n = Inr (assignSub_num s self c)"
| "assignSub_tmp s self (DualExpr d) t n = assignSub s self (DualExpr d) n"
| "assignSub_tmp s self e t n = bnd (negative s e) (\<lambda>e'. assignAdd_tmp s self e' t n)"

fun assignDiv :: "store \<Rightarrow> cell \<Rightarrow> expr \<Rightarrow> nat \<Rightarrow> failure + store" where
  "assignDiv s self (Number c) n = assignDiv_num s self c"
| "assignDiv s self (DualExpr d) n = assignDiv_dual s self d"
| "assignDiv s self e n = assignMul s self (inverse_expr s e) n"

fun assignDiv_tmp :: "store \<Rightarrow> cell \<Rightarrow> expr \<Rightarrow> cell \<Rightarrow> nat \<Rightarrow> failure + store" where
  "assignDiv_tmp s self (Number c) t n = assignDiv s self (Number c) n"
| "assignDiv_tmp s self (DualExpr d) t n = assignDiv s self (DualExpr d) n"
| "assignDiv_tmp s self e t n = assignMul_tmp s self (inverse_expr s e) t n"

subsection \<open>The members of \<open>Dual\<close> that reduce a tree\<close>

text \<open>
  \<open>Dual(const R& other)\<close> for an expression: a new object, here the temporary
  \<open>Tmp n\<close>, that \<open>assign\<close> fills. The result is the value of the new object.
\<close>

definition Dual_expr :: "store \<Rightarrow> expr \<Rightarrow> nat \<Rightarrow> failure + dual" where
  "Dual_expr s e n = bnd (assign s (Tmp n) e (Suc n)) (\<lambda>s'. Inr (s' (Tmp n)))"

text \<open>
  \<open>operator=\<close>, \<open>operator+=\<close>, \<open>operator-=\<close>, \<open>operator*=\<close>, \<open>operator/=\<close> on the
  variable \<open>x\<close>, in a statement of the caller: no temporary of the engine is alive.
\<close>

definition Dual_assign :: "store \<Rightarrow> nat \<Rightarrow> expr \<Rightarrow> failure + store" where
  "Dual_assign s x e = assign s (Var x) e 0"

definition Dual_plus_eq :: "store \<Rightarrow> nat \<Rightarrow> expr \<Rightarrow> failure + store" where
  "Dual_plus_eq s x e = assignAdd s (Var x) e 0"

definition Dual_minus_eq :: "store \<Rightarrow> nat \<Rightarrow> expr \<Rightarrow> failure + store" where
  "Dual_minus_eq s x e = assignSub s (Var x) e 0"

definition Dual_times_eq :: "store \<Rightarrow> nat \<Rightarrow> expr \<Rightarrow> failure + store" where
  "Dual_times_eq s x e = assignMul s (Var x) e 0"

definition Dual_div_eq :: "store \<Rightarrow> nat \<Rightarrow> expr \<Rightarrow> failure + store" where
  "Dual_div_eq s x e = assignDiv s (Var x) e 0"

subsection \<open>The operators that build trees\<close>

text \<open>
  Unary minus. On a number it is the built-in negation; \<open>-(-expr)\<close> is \<open>expr\<close>,
  returned by value; \<open>-(scalar * dual)\<close> is \<open>(-scalar) * dual\<close>.
\<close>

fun op_neg :: "store \<Rightarrow> expr \<Rightarrow> expr" where
  "op_neg s (Number c) = Number (- c)"
| "op_neg s (NumberDualMulExpr c d) = NumberDualMulExpr (- c) d"
| "op_neg s (UnaryExpr op r) =
     (if op = NegOp then by_value s r else UnaryExpr NegOp (UnaryExpr op r))"
| "op_neg s e = UnaryExpr NegOp e"

text \<open>
  \<open>operator*\<close>, one equation for each overload; on two numbers it is the built-in
  product. The overload for two negations returns \<open>l.r * r.r\<close> and the one for two
  inversions \<open>inverse(l.r * r.r)\<close>, and both products are again \<open>operator*\<close>.
  \<open>scalar * (u * dual)\<close> is \<open>(scalar * u) * dual\<close>, the product of a number and a dual.
  The overload for two negations forwards both operands with the type \<open>L\<close> of the left
  one (\<open>std::forward<L>(r.r)\<close>), which is well-formed for two operands of one type, two
  variables above all. The trees carry no C++ types, and the equation stands for the
  products that can be built.
\<close>

fun op_mul :: "store \<Rightarrow> expr \<Rightarrow> expr \<Rightarrow> expr" where
  "op_mul s (Number a) (Number b) = Number (a * b)"
| "op_mul s (Number a) (DualExpr d) = NumberDualMulExpr a d"
| "op_mul s (Number a) (NumberDualMulExpr u d) = NumberDualMulExpr (a * u) d"
| "op_mul s (Number a) (UnaryExpr op r) =
     (if op = NegOp then op_mul s (Number (- a)) r
      else MulExpr (Number a) (UnaryExpr op r))"
| "op_mul s (Number a) r = MulExpr (Number a) r"
| "op_mul s l (Number b) = MulExpr (Number b) l"
| "op_mul s (UnaryExpr opl a) (UnaryExpr opr b) =
     (if opl = NegOp \<and> opr = NegOp then op_mul s a b
      else if opl = InvOp \<and> opr = InvOp then inverse_expr s (op_mul s a b)
      else MulExpr (UnaryExpr opl a) (UnaryExpr opr b))"
| "op_mul s l r = MulExpr l r"

text \<open>
  \<open>operator/\<close>: \<open>l * inverse(r)\<close> for an expression \<open>r\<close>, and \<open>l * (1 / r)\<close> for a
  number \<open>r\<close>; on two numbers it is the built-in quotient.
\<close>

fun op_div :: "store \<Rightarrow> expr \<Rightarrow> expr \<Rightarrow> failure + expr" where
  "op_div s (Number a) (Number b) = bnd (fdiv a b) (\<lambda>q. Inr (Number q))"
| "op_div s l (Number b) = bnd (fdiv 1 b) (\<lambda>q. Inr (op_mul s l (Number q)))"
| "op_div s l r = Inr (op_mul s l (inverse_expr s r))"

subsection \<open>First derivative of a function of one first-order variable\<close>

text \<open>
  \<open>derivative(f, wrt(x), x)\<close> for \<open>dual x\<close> and a function whose body returns the tree
  \<open>body\<close> over \<open>x\<close> as a \<open>dual\<close>: seed \<open>x.grad = 1\<close>, construct the result from the
  tree, unseed \<open>x.grad = 0\<close>, return \<open>res.grad\<close>.
\<close>

definition derivative_dual :: "expr \<Rightarrow> nat \<Rightarrow> store \<Rightarrow> failure + (store \<times> real)" where
  "derivative_dual body x s =
     (let s1 = set_grad s (Var x) 1
      in bnd (assign s1 (Tmp 0) body 1) (\<lambda>s2.
           Inr (set_grad s2 (Var x) 0, grad (s2 (Tmp 0)))))"

subsection \<open>Reference evaluation\<close>

text \<open>
  The cells a tree refers to, the trees of a caller (no operand refers to a temporary of
  the engine), and the trees in which the operand of every unary node is an expression,
  as \<open>isExpr<R>\<close> demands of every function that builds one.
\<close>

fun operand_refs :: "operand \<Rightarrow> cell set" where
  "operand_refs (Ref c) = {c}"
| "operand_refs (Held d) = {}"

fun refs :: "expr \<Rightarrow> cell set" where
  "refs (Number c) = {}"
| "refs (DualExpr d) = operand_refs d"
| "refs (NumberDualMulExpr c d) = operand_refs d"
| "refs (UnaryExpr op r) = refs r"
| "refs (AddExpr l r) = refs l \<union> refs r"
| "refs (MulExpr l r) = refs l \<union> refs r"
| "refs (PowExpr l r) = refs l \<union> refs r"

fun is_tmp :: "cell \<Rightarrow> bool" where
  "is_tmp (Tmp k) = True"
| "is_tmp (Var x) = False"

text \<open>The temporaries that a reduction at depth \<open>n\<close> may create.\<close>

fun tmp_from :: "nat \<Rightarrow> cell \<Rightarrow> bool" where
  "tmp_from n (Tmp k) = (n \<le> k)"
| "tmp_from n (Var x) = False"

definition user_expr :: "expr \<Rightarrow> bool" where
  "user_expr e = (\<forall>c \<in> refs e. \<not> is_tmp c)"

fun is_expr :: "expr \<Rightarrow> bool" where
  "is_expr (Number c) = False"
| "is_expr e = True"

fun well_formed :: "expr \<Rightarrow> bool" where
  "well_formed (UnaryExpr op r) = (is_expr r \<and> well_formed r)"
| "well_formed (AddExpr l r) = (well_formed l \<and> well_formed r)"
| "well_formed (MulExpr l r) = (well_formed l \<and> well_formed r)"
| "well_formed (PowExpr l r) = (well_formed l \<and> well_formed r)"
| "well_formed e = True"

text \<open>
  Modelled from the spec: the reference evaluator of dual numbers. It computes the value
  and the derivative of a tree bottom-up from the values of the operands in the store,
  by the sum rule, the product rule, the rule of the \<open>scalar * dual\<close> fusion, the table
  of the unary functions (new value and multiplier of the derivative) and the two rules
  of \<open>pow\<close>. Where the value or the multiplier does not exist the result is
  \<open>NotFinite\<close>.
\<close>

definition dual_add :: "dual \<Rightarrow> dual \<Rightarrow> dual" where
  "dual_add a b = \<lparr>val = val a + val b, grad = grad a + grad b\<rparr>"

definition dual_mul :: "dual \<Rightarrow> dual \<Rightarrow> dual" where
  "dual_mul a b = \<lparr>val = val a * val b, grad = grad a * val b + val a * grad b\<rparr>"

fun ref_unary :: "uop \<Rightarrow> real \<Rightarrow> failure + (real \<times> real)" where
  "ref_unary NegOp v = Inr (- v, - 1)"
| "ref_unary InvOp v = (if v = 0 then Inl NotFinite else Inr (1 / v, - ((1 / v) ^ 2)))"
| "ref_unary SinOp v = Inr (sin v, cos v)"
| "ref_unary CosOp v = Inr (cos v, - sin v)"
| "ref_unary TanOp v = (if cos v = 0 then Inl NotFinite else Inr (tan v, (1 / cos v) ^ 2))"
| "ref_unary ArcSinOp v =
     (if 0 < 1 - v ^ 2 then Inr (arcsin v, 1 / sqrt (1 - v ^ 2)) else Inl NotFinite)"
| "ref_unary ArcCosOp v =
     (if 0 < 1 - v ^ 2 then Inr (arccos v, - 1 / sqrt (1 - v ^ 2)) else Inl NotFinite)"
| "ref_unary ArcTanOp v = Inr (arctan v, 1 / (1 + v ^ 2))"
| "ref_unary ExpOp v = Inr (exp v, exp v)"
| "ref_unary LogOp v = (if 0 < v then Inr (ln v, 1 / v) else Inl NotFinite)"
| "ref_unary Log10Op v = (if 0 < v then Inr (log 10 v, 1 / (ln 10 * v)) else Inl NotFinite)"
| "ref_unary SqrtOp v = (if 0 < v then Inr (sqrt v, 0.5 / sqrt v) else Inl NotFinite)"
| "ref_unary AbsOp v = (if v = 0 then Inl NotFinite else Inr (\<bar>v\<bar>, v / \<bar>v\<bar>))"

definition ref_apply :: "uop \<Rightarrow> dual \<Rightarrow> failure + dual" where
  "ref_apply op d =
     bnd (ref_unary op (val d)) (\<lambda>(v, m). Inr \<lparr>val = v, grad = grad d * m\<rparr>)"

definition ref_pow_number :: "dual \<Rightarrow> real \<Rightarrow> failure + dual" where
  "ref_pow_number b p =
     bnd (fpow (val b) p) (\<lambda>w.
       if val b = 0 then Inl NotFinite
       else Inr \<lparr>val = w, grad = grad b * (p / val b) * w\<rparr>)"

definition ref_pow_dual :: "dual \<Rightarrow> dual \<Rightarrow> failure + dual" where
  "ref_pow_dual b e =
     (if 0 < val b then
        Inr \<lparr>val = val b powr val e,
             grad = (grad b * val e / val b + ln (val b) * grad e) * (val b powr val e)\<rparr>
      else Inl NotFinite)"

text \<open>
  The power of the base \<open>b\<close>: by the rule of the scalar exponent when the exponent is a
  number, by the rule of the dual exponent on the value \<open>m\<close> of the exponent otherwise.
\<close>

fun ref_pow_with :: "dual \<Rightarrow> expr \<Rightarrow> failure + dual \<Rightarrow> failure + dual" where
  "ref_pow_with b (Number p) m = ref_pow_number b p"
| "ref_pow_with b e m = bnd m (ref_pow_dual b)"

fun ref_eval :: "store \<Rightarrow> expr \<Rightarrow> failure + dual" where
  "ref_eval s (Number c) = Inr \<lparr>val = c, grad = 0\<rparr>"
| "ref_eval s (DualExpr d) = Inr (rd s d)"
| "ref_eval s (NumberDualMulExpr c d) =
     Inr \<lparr>val = c * val (rd s d), grad = c * grad (rd s d)\<rparr>"
| "ref_eval s (UnaryExpr op r) = bnd (ref_eval s r) (ref_apply op)"
| "ref_eval s (AddExpr l r) =
     bnd (ref_eval s l) (\<lambda>a. bnd (ref_eval s r) (\<lambda>b. Inr (dual_add a b)))"
| "ref_eval s (MulExpr l r) =
     bnd (ref_eval s l) (\<lambda>a. bnd (ref_eval s r) (\<lambda>b. Inr (dual_mul a b)))"
| "ref_eval s (PowExpr l r) = bnd (ref_eval s l) (\<lambda>b. ref_pow_with b r (ref_eval s r))"

text \<open>
  Modelled from the claim on the reduction order: accumulation of an addition node and
  of a multiplication node with the right operand first.
\<close>

definition assignAdd_right_first ::
  "store \<Rightarrow> cell \<Rightarrow> expr \<Rightarrow> expr \<Rightarrow> nat \<Rightarrow> failure + store" where
  "assignAdd_right_first s self l r n =
     bnd (assignAdd s self r n) (\<lambda>s1. assignAdd s1 self l n)"

definition assignMul_right_first ::
  "store \<Rightarrow> cell \<Rightarrow> expr \<Rightarrow> expr \<Rightarrow> nat \<Rightarrow> failure + store" where
  "assignMul_right_first s self l r n =
     bnd (assignMul s self r n) (\<lambda>s1. assignMul s1 self l n)"

text \<open>The target's dual after a reduction, or the failure.\<close>

definition target :: "cell \<Rightarrow> failure + store \<Rightarrow> failure + dual" where
  "target self m = bnd m (\<lambda>s'. Inr (s' self))"

text \<open>
  Two stores that agree on every cell other than the scratch dual \<open>t\<close> and the
  temporaries from depth \<open>n\<close> on, and two reductions that fail alike or leave two such
  stores.
\<close>

definition eq_outside :: "cell \<Rightarrow> nat \<Rightarrow> store \<Rightarrow> store \<Rightarrow> bool" where
  "eq_outside t n a b = (\<forall>c. c \<noteq> t \<and> \<not> tmp_from n c \<longrightarrow> a c = b c)"

definition same_outcome :: "cell \<Rightarrow> nat \<Rightarrow> failure + store \<Rightarrow> failure + store \<Rightarrow> bool" where
  "same_outcome t n m m2 =
     (case m of
        Inl f \<Rightarrow> m2 = Inl f
      | Inr a \<Rightarrow> (case m2 of Inl f \<Rightarrow> False | Inr b \<Rightarrow> eq_outside t n a b))"

section \<open>Construction\<close>

lemma Dual_number_zero: "all_zero (Dual_number T 0)"
  by (induction T "0::real" rule: Dual_number.induct) simp_all

lemma dtype_of_Dual_number: "dtype_of (Dual_number T c) = T"
  by (induction T c rule: Dual_number.induct) simp_all

text \<open>
  C9. A default-constructed dual has val 0 and grad 0 (every stored number is zero, at
  any order), and it is the dual constructed from the scalar 0.0.
\<close>

theorem default_dual_is_zero:
  "hval (Dual_default T G) = Dual_number T 0
   \<and> hgrad (Dual_default T G) = Dual_number G 0
   \<and> all_zero (hval (Dual_default T G))
   \<and> all_zero (hgrad (Dual_default T G))
   \<and> Dual_default T G = Dual_number (TDual T G) 0
   \<and> Dual_default TDouble TDouble = HDual (Scalar 0) (Scalar 0)"
  by (simp add: Dual_default_def Dual_number_zero)

section \<open>Derivative extraction\<close>

lemma unat_order: "n < 2 ^ LENGTH(64) \<Longrightarrow> unat (of_nat n :: 64 word) = n"
  by (rule of_nat_inverse[OF refl])

lemma order_neq_0: "0 < n \<Longrightarrow> n < 2 ^ LENGTH(64) \<Longrightarrow> (of_nat n :: 64 word) \<noteq> 0"
proof
  assume a: "0 < n" "n < 2 ^ LENGTH(64)" "(of_nat n :: 64 word) = 0"
  from unat_order[OF a(2)] a(3) have "n = 0" by (simp only: unat_0 unsigned_0)
  with a(1) show False by simp
qed

lemma order_neq_1: "1 < n \<Longrightarrow> n < 2 ^ LENGTH(64) \<Longrightarrow> (of_nat n :: 64 word) \<noteq> 1"
proof
  assume a: "1 < n" "n < 2 ^ LENGTH(64)" "(of_nat n :: 64 word) = 1"
  from unat_order[OF a(2)] a(3) have "n = 1" by (simp only: unsigned_1)
  with a(1) show False by simp
qed

lemma derivative_peels:
  "0 < n \<Longrightarrow> n < 2 ^ LENGTH(64) \<Longrightarrow> peel_grad n d = Some r \<Longrightarrow> derivative (of_nat n) d = Inr r"
proof (induction n d arbitrary: r rule: peel_grad.induct)
  case (1 d)
  then show ?case by simp
next
  case (2 n c)
  then show ?case by simp
next
  case (3 n v g)
  have ne0: "(of_nat (Suc n) :: 64 word) \<noteq> 0"
    using 3(3) by (intro order_neq_0) simp_all
  show ?case
  proof (cases "n = 0")
    case True
    with 3(4) show ?thesis by simp
  next
    case False
    have ne1: "(of_nat (Suc n) :: 64 word) \<noteq> 1"
      using 3(3) False by (intro order_neq_1) simp_all
    have lt: "n < 2 ^ LENGTH(64)" using 3(3) by linarith
    have "derivative (of_nat (Suc n)) (HDual v g) = derivative (of_nat (Suc n) - 1) g"
      using ne0 ne1 by (simp del: of_nat_Suc)
    also have "of_nat (Suc n) - 1 = (of_nat n :: 64 word)" by simp
    also have "derivative (of_nat n) g = Inr r"
      using 3(1)[OF _ lt, of r] 3(4) False by simp
    finally show ?thesis .
  qed
qed

text \<open>
  C4. \<open>derivative<N>(d)\<close> peels \<open>N\<close> levels of \<open>.grad\<close> off \<open>d\<close> for every order
  from 1 on (lemma \<open>derivative_peels\<close>), but not for order 0: the claim says that
  order 0 returns \<open>d.val\<close>, and \<open>derivative<0>\<close> of the first-order dual with val 2
  and grad 1 is ill-formed, because the recursive call \<open>derivative<order - 1>(dual.grad)\<close>
  is instantiated on the number \<open>dual.grad\<close>.
\<close>

theorem derivative_order_zero_ill_formed:
  "derivative 0 (HDual (Scalar 2) (Scalar 1)) = Inl IllFormed"
  by simp


lemma val_h_assign_number: "val_h (assign_number d c) = c"
  by (induction d c rule: assign_number.induct) simp_all

lemma set_grad_level_val_h:
  "set_grad_level k num d = Inr d' \<Longrightarrow> val_h d' = val_h d"
  by (induction k num d arbitrary: d' rule: set_grad_level.induct)
     (auto split: sum.splits)

lemma set_grad_level_at:
  "set_grad_level k num d = Inr d' \<Longrightarrow>
   \<exists>v g. val_level k d = Some (HDual v g) \<and> val_level k d' = Some (HDual v (assign_number g num))"
  by (induction k num d arbitrary: d' rule: set_grad_level.induct)
     (auto split: sum.splits)

lemma set_grad_level_deeper:
  "set_grad_level k num d = Inr d' \<Longrightarrow> k < j \<Longrightarrow> val_level j d' = val_level j d"
proof (induction k num d arbitrary: d' j rule: set_grad_level.induct)
  case (1 k num c)
  then show ?case by simp
next
  case (2 num v g)
  then show ?case by (cases j) auto
next
  case (3 k num v g)
  then show ?case by (cases j) (auto split: sum.splits)
qed

lemma internal_seed_val_h:
  "internal_seed num k xs s = Inr s' \<Longrightarrow> val_h (s' x) = val_h (s x)"
  by (induction num k xs s arbitrary: s' rule: internal_seed.induct)
     (auto split: sum.splits dest: set_grad_level_val_h)

lemma internal_seed_frame:
  "internal_seed num k xs s = Inr s' \<Longrightarrow> x \<notin> set xs \<Longrightarrow> s' x = s x"
  by (induction num k xs s arbitrary: s' rule: internal_seed.induct)
     (auto split: sum.splits)

lemma internal_seed_grad:
  "internal_seed num k xs s = Inr s' \<Longrightarrow> j < length xs \<Longrightarrow>
   \<exists>v g. val_level (k + j) (s' (xs ! j)) = Some (HDual v (assign_number g num))"
proof (induction num k xs s arbitrary: s' j rule: internal_seed.induct)
  case (1 num k s)
  then show ?case by simp
next
  case (2 num k x s)
  from 2(1) obtain d where d: "set_grad_level k num (s x) = Inr d" and s': "s' = s(x := d)"
    by (auto split: sum.splits)
  from set_grad_level_at[OF d] 2(2) s' show ?case by auto
next
  case (3 num k x y ys s)
  from 3(2) obtain s1 d where s1: "internal_seed num (Suc k) (y # ys) s = Inr s1"
    and d: "set_grad_level k num (s1 x) = Inr d" and s': "s' = s1(x := d)"
    by (auto split: sum.splits)
  show ?case
  proof (cases j)
    case 0
    with set_grad_level_at[OF d] s' show ?thesis by auto
  next
    case (Suc i)
    with 3(3) have i: "i < length (y # ys)" by simp
    from 3(1)[OF s1 i] obtain v g where
      lv: "val_level (Suc k + i) (s1 ((y # ys) ! i)) = Some (HDual v (assign_number g num))"
      by blast
    show ?thesis
    proof (cases "(y # ys) ! i = x")
      case True
      have "val_level (k + j) d = val_level (k + j) (s1 x)"
        using set_grad_level_deeper[OF d, of "k + j"] Suc by simp
      with lv True Suc s' show ?thesis by auto
    next
      case False
      with lv Suc s' show ?thesis by auto
    qed
  qed
qed

lemma internal_seed_val_channel:
  "internal_seed num k xs s = Inr s' \<Longrightarrow> distinct xs \<Longrightarrow> j < length xs \<Longrightarrow>
   map_option hval (val_level (k + j) (s' (xs ! j))) = map_option hval (val_level (k + j) (s (xs ! j)))"
proof (induction num k xs s arbitrary: s' j rule: internal_seed.induct)
  case (1 num k s)
  then show ?case by simp
next
  case (2 num k x s)
  from 2(1) obtain d where d: "set_grad_level k num (s x) = Inr d" and s': "s' = s(x := d)"
    by (auto split: sum.splits)
  from set_grad_level_at[OF d] 2(3) s' show ?case by auto
next
  case (3 num k x y ys s)
  from 3(2) obtain s1 d where s1: "internal_seed num (Suc k) (y # ys) s = Inr s1"
    and d: "set_grad_level k num (s1 x) = Inr d" and s': "s' = s1(x := d)"
    by (auto split: sum.splits)
  from 3(3) have nx: "x \<notin> set (y # ys)" and dist: "distinct (y # ys)" by auto
  show ?case
  proof (cases j)
    case 0
    have "s1 x = s x" using internal_seed_frame[OF s1 nx] .
    with set_grad_level_at[OF d] s' 0 show ?thesis by auto
  next
    case (Suc i)
    with 3(4) have i: "i < length (y # ys)" by simp
    then have "(y # ys) ! i \<noteq> x" using nx nth_mem by metis
    with 3(1)[OF s1 dist i] Suc s' show ?thesis by auto
  qed
qed




lemma seed_ill_formed: "length wrt \<noteq> 1 \<Longrightarrow> seed wrt s = Inl IllFormed"
  by (auto simp add: seed_def split: list.splits)

lemma derivative_wrt_ill_formed:
  "length wrt \<noteq> 1 \<Longrightarrow> derivative_wrt f wrt s = Inl IllFormed"
  by (simp add: derivative_wrt_def seed_ill_formed)

lemma derivative_wrt_returns:
  assumes "s x = HDual v g"
    and "fst (f (s(x := HDual v (assign_number g 1)))) x = HDual v' g'"
    and "snd (f (s(x := HDual v (assign_number g 1)))) = HDual rv rg"
  shows "derivative_wrt f [x] s
     = Inr ((fst (f (s(x := HDual v (assign_number g 1)))))(x := HDual v' (assign_number g' 0)), rg)"
  using assms by (simp add: derivative_wrt_def seed_def unseed_def)



section \<open>The reduction engine\<close>

lemma setters_simps:
  "set_val s c v c' = (if c' = c then (s c)\<lparr>val := v\<rparr> else s c')"
  "set_grad s c g c' = (if c' = c then (s c)\<lparr>grad := g\<rparr> else s c')"
  by (simp_all add: set_val_def set_grad_def)

lemma bnd_simps:
  "bnd (Inl e) f = Inl e"
  "bnd (Inr x) f = f x"
  by (simp_all add: bnd_def)

lemma target_simps:
  "target c (Inl e) = Inl e"
  "target c (Inr s) = Inr (s c)"
  by (simp_all add: target_def bnd_def)

lemma fdiv_simps:
  "b \<noteq> 0 \<Longrightarrow> fdiv a b = Inr (a / b)"
  "fdiv a 0 = Inl NotFinite"
  by (simp_all add: fdiv_def)

text \<open>
  C10. \<open>self += c\<close> and \<open>self -= c\<close> for a number \<open>c\<close>, through \<open>assignAdd\<close> and
  \<open>assignSub\<close> in both call shapes and through the operators: the store changes in
  \<open>self.val\<close> only, and \<open>self.grad\<close> is what it was.
\<close>

theorem scalar_accumulation_keeps_grad:
  "assignAdd s self (Number c) n = Inr (s(self := (s self)\<lparr>val := val (s self) + c\<rparr>))
   \<and> assignAdd_tmp s self (Number c) t n = Inr (s(self := (s self)\<lparr>val := val (s self) + c\<rparr>))
   \<and> assignSub s self (Number c) n = Inr (s(self := (s self)\<lparr>val := val (s self) - c\<rparr>))
   \<and> assignSub_tmp s self (Number c) t n = Inr (s(self := (s self)\<lparr>val := val (s self) - c\<rparr>))
   \<and> Dual_plus_eq s x (Number c) = Inr (s(Var x := (s (Var x))\<lparr>val := val (s (Var x)) + c\<rparr>))
   \<and> Dual_minus_eq s x (Number c) = Inr (s(Var x := (s (Var x))\<lparr>val := val (s (Var x)) - c\<rparr>))
   \<and> grad ((s self)\<lparr>val := val (s self) + c\<rparr>) = grad (s self)
   \<and> grad ((s self)\<lparr>val := val (s self) - c\<rparr>) = grad (s self)"
  by (simp add: assignAdd_num_def assignSub_num_def set_val_def Dual_plus_eq_def Dual_minus_eq_def)

text \<open>
  C3 (amended). \<open>assign\<close> of \<open>l + r\<close> and of \<open>l * r\<close> reduces \<open>r\<close> into the target
  first and then accumulates \<open>l\<close>, in both call shapes. The accumulation paths have the
  other order: \<open>assignAdd\<close> of an addition node and \<open>assignMul\<close> of a multiplication
  node accumulate \<open>l\<close> first and then \<open>r\<close>.
\<close>

theorem reduction_order:
  "assign s self (AddExpr l r) n = bnd (assign s self r n) (\<lambda>s1. assignAdd s1 self l n)
   \<and> assign_tmp s self (AddExpr l r) t n
       = bnd (assign_tmp s self r t n) (\<lambda>s1. assignAdd_tmp s1 self l t n)
   \<and> assign s self (MulExpr l r) n = bnd (assign s self r n) (\<lambda>s1. assignMul s1 self l n)
   \<and> assign_tmp s self (MulExpr l r) t n
       = bnd (assign_tmp s self r t n) (\<lambda>s1. assignMul_tmp s1 self l t n)
   \<and> assignAdd s self (AddExpr l r) n = bnd (assignAdd s self l n) (\<lambda>s1. assignAdd s1 self r n)
   \<and> assignAdd_tmp s self (AddExpr l r) t n
       = bnd (assignAdd_tmp s self l t n) (\<lambda>s1. assignAdd_tmp s1 self r t n)
   \<and> assignMul s self (MulExpr l r) n = bnd (assignMul s self l n) (\<lambda>s1. assignMul s1 self r n)
   \<and> assignMul_tmp s self (MulExpr l r) t n
       = bnd (assignMul_tmp s self l t n) (\<lambda>s1. assignMul_tmp s1 self r t n)"
  by (simp add: bnd_def)

text \<open>
  The claimed order, right operand first, is not the order of \<open>assignAdd\<close>: for
  \<open>x += (-x) + y\<close> with \<open>x = (2, 1)\<close> and \<open>y = (5, 1)\<close> the code leaves \<open>(5, 1)\<close> in
  \<open>x\<close>, and the accumulation with the right operand first would leave \<open>(0, 0)\<close>.
\<close>

theorem accumulation_left_first_counterexample:
  "target (Var 0)
     (assignAdd ((\<lambda>c. Dual0)(Var 0 := \<lparr>val = 2, grad = 1\<rparr>, Var 1 := \<lparr>val = 5, grad = 1\<rparr>)) (Var 0)
        (AddExpr (UnaryExpr NegOp (DualExpr (Ref (Var 0)))) (DualExpr (Ref (Var 1)))) 0)
     = Inr \<lparr>val = 5, grad = 1\<rparr>
   \<and> target (Var 0)
     (assignAdd_right_first ((\<lambda>c. Dual0)(Var 0 := \<lparr>val = 2, grad = 1\<rparr>, Var 1 := \<lparr>val = 5, grad = 1\<rparr>)) (Var 0)
        (UnaryExpr NegOp (DualExpr (Ref (Var 0)))) (DualExpr (Ref (Var 1))) 0)
     = Inr \<lparr>val = 0, grad = 0\<rparr>"
  by (simp add: assignAdd_right_first_def bnd_simps target_simps assignAdd_dual_def
      assignAddNegativeDual_def setters_simps Let_def Dual0_def)

text \<open>
  C5. \<open>x += -x\<close> and \<open>x += inverse(x)\<close> first copy the operand \<open>x\<close> into a
  temporary dual (\<open>eval\<close>, which leaves \<open>x\<close> as it is) and then change \<open>x\<close> reading
  that temporary: after \<open>x += -x\<close> the temporary holds the original \<open>x\<close> and \<open>x\<close>
  holds val 0 and grad 0; after \<open>x += inverse(x)\<close>, for \<open>x.val\<close> other than 0, the
  temporary holds the original \<open>x = (v, g)\<close> and \<open>x\<close> holds \<open>(v + 1/v, g - g/v\<^sup>2)\<close>.
  \<open>x += 1/x\<close> accumulates the tree \<open>1 * inverse(x)\<close>, which the generic rule reduces
  whole into a new dual before \<open>x\<close> changes: that dual then holds the value and the
  derivative of \<open>1/x\<close> at the original \<open>x\<close>, which is what the reference evaluator
  gives, and \<open>x\<close> holds \<open>(v + 1/v, g - g/v\<^sup>2)\<close>, the value of \<open>x + 1/x\<close> in the original
  store. In the call shape with a scratch dual \<open>y\<close> other than \<open>x\<close>, the scratch dual
  holds the original \<open>x\<close> after \<open>x += -x\<close>. Accumulating the negation or the inversion
  of \<open>x\<close> itself gives what accumulating that of a copy of the original \<open>x\<close> gives.
\<close>

theorem self_aliasing_accumulation:
  "target (Var x) (Dual_plus_eq s x (op_neg s (DualExpr (Ref (Var x))))) = Inr \<lparr>val = 0, grad = 0\<rparr>
   \<and> target (Var x) (Dual_plus_eq s x (UnaryExpr NegOp (DualExpr (Ref (Var x)))))
       = target (Var x) (Dual_plus_eq s x (UnaryExpr NegOp (DualExpr (Held (s (Var x))))))
   \<and> target (Var x) (Dual_plus_eq s x (UnaryExpr InvOp (DualExpr (Ref (Var x)))))
       = target (Var x) (Dual_plus_eq s x (UnaryExpr InvOp (DualExpr (Held (s (Var x))))))
   \<and> (val (s (Var x)) \<noteq> 0 \<longrightarrow>
        (\<exists>e. op_div s (Number 1) (DualExpr (Ref (Var x))) = Inr e
           \<and> target (Var x) (Dual_plus_eq s x e)
               = Inr \<lparr>val = val (s (Var x)) + 1 / val (s (Var x)),
                      grad = grad (s (Var x)) - grad (s (Var x)) / (val (s (Var x)) * val (s (Var x)))\<rparr>
           \<and> ref_eval s (AddExpr (DualExpr (Ref (Var x))) e) = target (Var x) (Dual_plus_eq s x e))
        \<and> target (Var x) (Dual_plus_eq s x (inverse_expr s (DualExpr (Ref (Var x)))))
               = Inr \<lparr>val = val (s (Var x)) + 1 / val (s (Var x)),
                      grad = grad (s (Var x)) - grad (s (Var x)) / (val (s (Var x)) * val (s (Var x)))\<rparr>)
   \<and> eval s (DualExpr (Ref (Var x))) 0 = Inr (s(Tmp 0 := s (Var x)))
   \<and> Dual_plus_eq s x (op_neg s (DualExpr (Ref (Var x))))
       = bnd (eval s (DualExpr (Ref (Var x))) 0)
           (\<lambda>s1. Inr (assignAddNegativeDual s1 (Var x) (Ref (Tmp 0))))
   \<and> Dual_plus_eq s x (op_neg s (DualExpr (Ref (Var x))))
       = Inr (s(Tmp 0 := s (Var x), Var x := \<lparr>val = 0, grad = 0\<rparr>))
   \<and> Dual_plus_eq s x (inverse_expr s (DualExpr (Ref (Var x))))
       = bnd (eval s (DualExpr (Ref (Var x))) 0)
           (\<lambda>s1. assignAddInverseDual s1 (Var x) (Ref (Tmp 0)))
   \<and> (val (s (Var x)) \<noteq> 0 \<longrightarrow>
        Dual_plus_eq s x (inverse_expr s (DualExpr (Ref (Var x))))
          = Inr (s(Tmp 0 := s (Var x),
                   Var x := \<lparr>val = val (s (Var x)) + 1 / val (s (Var x)),
                             grad = grad (s (Var x))
                               - grad (s (Var x)) / (val (s (Var x)) * val (s (Var x)))\<rparr>)))
   \<and> op_div s (Number 1) (DualExpr (Ref (Var x)))
       = Inr (MulExpr (Number 1) (UnaryExpr InvOp (DualExpr (Ref (Var x)))))
   \<and> Dual_plus_eq s x (MulExpr (Number 1) (UnaryExpr InvOp (DualExpr (Ref (Var x)))))
       = bnd (assign (s(Tmp 0 := Dual0)) (Tmp 0)
                (MulExpr (Number 1) (UnaryExpr InvOp (DualExpr (Ref (Var x))))) 1)
           (\<lambda>s1. Inr (assignAdd_dual s1 (Var x) (Ref (Tmp 0))))
   \<and> (val (s (Var x)) \<noteq> 0 \<longrightarrow>
        assign (s(Tmp 0 := Dual0)) (Tmp 0)
            (MulExpr (Number 1) (UnaryExpr InvOp (DualExpr (Ref (Var x))))) 1
          = Inr (s(Tmp 0 := \<lparr>val = 1 / val (s (Var x)),
                                grad = - (grad (s (Var x)) / (val (s (Var x)) * val (s (Var x))))\<rparr>))
        \<and> ref_eval s (MulExpr (Number 1) (UnaryExpr InvOp (DualExpr (Ref (Var x)))))
          = Inr \<lparr>val = 1 / val (s (Var x)),
                 grad = - (grad (s (Var x)) / (val (s (Var x)) * val (s (Var x))))\<rparr>
        \<and> Dual_plus_eq s x (MulExpr (Number 1) (UnaryExpr InvOp (DualExpr (Ref (Var x)))))
          = Inr (s(Tmp 0 := \<lparr>val = 1 / val (s (Var x)),
                                grad = - (grad (s (Var x)) / (val (s (Var x)) * val (s (Var x))))\<rparr>,
                   Var x := \<lparr>val = val (s (Var x)) + 1 / val (s (Var x)),
                             grad = grad (s (Var x))
                               - grad (s (Var x)) / (val (s (Var x)) * val (s (Var x)))\<rparr>)))
   \<and> (y \<noteq> x \<longrightarrow>
        assignAdd_tmp s (Var x) (UnaryExpr NegOp (DualExpr (Ref (Var x)))) (Var y) n
          = Inr (s(Tmp n := s (Var x), Var y := s (Var x), Var x := \<lparr>val = 0, grad = 0\<rparr>)))"
  apply (intro conjI impI)
  apply (auto simp add: Dual_plus_eq_def bnd_simps target_simps assignAdd_dual_def
      assignAddNegativeDual_def assignAddInverseDual_def setters_simps Let_def Dual0_def fdiv_def
      assign_dual_def apply_cell_def assignMul_num_def dual_add_def dual_mul_def ref_apply_def
      field_simps power2_eq_square fun_eq_iff)
  done

theorem self_aliasing_accumulation_witness:
  "val (((\<lambda>c. Dual0)(Var 0 := \<lparr>val = 2, grad = 1\<rparr>)) (Var 0)) \<noteq> 0
   \<and> (1 :: nat) \<noteq> 0
   \<and> target (Var 0) (Dual_plus_eq ((\<lambda>c. Dual0)(Var 0 := \<lparr>val = 2, grad = 1\<rparr>)) 0
        (inverse_expr ((\<lambda>c. Dual0)(Var 0 := \<lparr>val = 2, grad = 1\<rparr>)) (DualExpr (Ref (Var 0)))))
      = Inr \<lparr>val = 5 / 2, grad = 3 / 4\<rparr>
   \<and> Dual_plus_eq ((\<lambda>c. Dual0)(Var 0 := \<lparr>val = 2, grad = 1\<rparr>)) 0
        (MulExpr (Number 1) (UnaryExpr InvOp (DualExpr (Ref (Var 0)))))
      = Inr ((\<lambda>c. Dual0)(Var 0 := \<lparr>val = 5 / 2, grad = 3 / 4\<rparr>,
                           Tmp 0 := \<lparr>val = 1 / 2, grad = - (1 / 4)\<rparr>))
   \<and> assignAdd_tmp ((\<lambda>c. Dual0)(Var 0 := \<lparr>val = 2, grad = 1\<rparr>)) (Var 0)
        (UnaryExpr NegOp (DualExpr (Ref (Var 0)))) (Var 1) 0
      = Inr ((\<lambda>c. Dual0)(Var 0 := \<lparr>val = 0, grad = 0\<rparr>,
                           Var 1 := \<lparr>val = 2, grad = 1\<rparr>,
                           Tmp 0 := \<lparr>val = 2, grad = 1\<rparr>))"
proof -
  let ?S = "(\<lambda>c. Dual0)(Var 0 := \<lparr>val = 2, grad = 1\<rparr>)"
  have h: "val (?S (Var 0)) \<noteq> 0" "(1 :: nat) \<noteq> 0" by simp_all
  note t = self_aliasing_accumulation[of 0 ?S 1 0]
  from t h
  have "target (Var 0) (Dual_plus_eq ?S 0 (inverse_expr ?S (DualExpr (Ref (Var 0)))))
      = Inr \<lparr>val = val (?S (Var 0)) + 1 / val (?S (Var 0)),
             grad = grad (?S (Var 0)) - grad (?S (Var 0)) / (val (?S (Var 0)) * val (?S (Var 0)))\<rparr>"
    by blast
  also have "\<dots> = Inr \<lparr>val = 5 / 2, grad = 3 / 4\<rparr>" by simp
  finally have 1: "target (Var 0) (Dual_plus_eq ?S 0 (inverse_expr ?S (DualExpr (Ref (Var 0)))))
      = Inr \<lparr>val = 5 / 2, grad = 3 / 4\<rparr>" .
  from t h
  have "Dual_plus_eq ?S 0 (MulExpr (Number 1) (UnaryExpr InvOp (DualExpr (Ref (Var 0)))))
      = Inr (?S(Tmp 0 := \<lparr>val = 1 / val (?S (Var 0)),
                              grad = - (grad (?S (Var 0)) / (val (?S (Var 0)) * val (?S (Var 0))))\<rparr>,
                Var 0 := \<lparr>val = val (?S (Var 0)) + 1 / val (?S (Var 0)),
                          grad = grad (?S (Var 0))
                            - grad (?S (Var 0)) / (val (?S (Var 0)) * val (?S (Var 0)))\<rparr>))"
    by blast
  also have "\<dots> = Inr ((\<lambda>c. Dual0)(Var 0 := \<lparr>val = 5 / 2, grad = 3 / 4\<rparr>,
                           Tmp 0 := \<lparr>val = 1 / 2, grad = - (1 / 4)\<rparr>))"
    by (auto simp add: fun_eq_iff)
  finally have 2: "Dual_plus_eq ?S 0 (MulExpr (Number 1) (UnaryExpr InvOp (DualExpr (Ref (Var 0)))))
      = Inr ((\<lambda>c. Dual0)(Var 0 := \<lparr>val = 5 / 2, grad = 3 / 4\<rparr>,
                           Tmp 0 := \<lparr>val = 1 / 2, grad = - (1 / 4)\<rparr>))" .
  from t h
  have "assignAdd_tmp ?S (Var 0) (UnaryExpr NegOp (DualExpr (Ref (Var 0)))) (Var 1) 0
      = Inr (?S(Tmp 0 := ?S (Var 0), Var 1 := ?S (Var 0), Var 0 := \<lparr>val = 0, grad = 0\<rparr>))"
    by blast
  also have "\<dots> = Inr ((\<lambda>c. Dual0)(Var 0 := \<lparr>val = 0, grad = 0\<rparr>,
                           Var 1 := \<lparr>val = 2, grad = 1\<rparr>,
                           Tmp 0 := \<lparr>val = 2, grad = 1\<rparr>))"
    by (auto simp add: fun_eq_iff)
  finally have 3: "assignAdd_tmp ?S (Var 0) (UnaryExpr NegOp (DualExpr (Ref (Var 0)))) (Var 1) 0
      = Inr ((\<lambda>c. Dual0)(Var 0 := \<lparr>val = 0, grad = 0\<rparr>,
                           Var 1 := \<lparr>val = 2, grad = 1\<rparr>,
                           Tmp 0 := \<lparr>val = 2, grad = 1\<rparr>))" .
  from h 1 2 3 show ?thesis by blast
qed

section \<open>Powers\<close>

lemma fpow_pos: "0 < x \<Longrightarrow> fpow x y = Inr (x powr y)"
  by (simp add: fpow_def)

lemma fpow_3: "x \<noteq> 0 \<Longrightarrow> fpow x 3 = Inr (x ^ 3)"
  by (simp add: fpow_def)

text \<open>
  C6 (amended). For every tracked variable \<open>x\<close> whose value is not 0,
  \<open>derivative(x => pow(x, 3.0), wrt(x), x)\<close> is \<open>3 * val(x) * val(x)\<close>. For a number
  \<open>p\<close> and a positive \<open>self.val\<close>, \<open>assignPow\<close> (in both call shapes) leaves
  \<open>val' = val\<^sup>p\<close> and \<open>grad' = grad * (p / val * val')\<close>, which is the power rule
  \<open>p * val\<^bsup>p - 1\<^esup> * grad\<close>.
\<close>

theorem pow_scalar_rule:
  "(val (s (Var x)) \<noteq> 0 \<longrightarrow>
      map_sum id snd (derivative_dual (PowExpr (DualExpr (Ref (Var x))) (Number 3)) x s)
        = Inr (3 * val (s (Var x)) * val (s (Var x))))
   \<and> (0 < val (s self) \<longrightarrow>
        target self (assignPow s self (Number p) n)
          = Inr \<lparr>val = val (s self) powr p,
                 grad = grad (s self) * (p / val (s self) * val (s self) powr p)\<rparr>
      \<and> target self (assignPow_tmp s self (Number p) t n)
          = target self (assignPow s self (Number p) n)
      \<and> grad (s self) * (p / val (s self) * val (s self) powr p)
          = p * val (s self) powr (p - 1) * grad (s self))"
proof (intro conjI impI)
  assume v: "val (s (Var x)) \<noteq> 0"
  then show "map_sum id snd (derivative_dual (PowExpr (DualExpr (Ref (Var x))) (Number 3)) x s)
        = Inr (3 * val (s (Var x)) * val (s (Var x)))"
    by (simp add: derivative_dual_def Let_def assign_dual_def setters_simps assignPow_num_def
        fpow_3 bnd_simps fdiv_simps power3_eq_cube)
next
  assume v: "0 < val (s self)"
  then show "target self (assignPow s self (Number p) n)
          = Inr \<lparr>val = val (s self) powr p,
                 grad = grad (s self) * (p / val (s self) * val (s self) powr p)\<rparr>"
    by (simp add: assignPow_num_def fpow_pos bnd_simps fdiv_simps Let_def setters_simps target_simps)
  show "target self (assignPow_tmp s self (Number p) t n)
          = target self (assignPow s self (Number p) n)"
    by simp
  show "grad (s self) * (p / val (s self) * val (s self) powr p)
          = p * val (s self) powr (p - 1) * grad (s self)"
    using v by (simp add: powr_diff)
qed

theorem pow_scalar_rule_witness:
  "val (((\<lambda>c. Dual0)(Var 0 := \<lparr>val = 2, grad = 0\<rparr>)) (Var 0)) \<noteq> 0
   \<and> 0 < val (((\<lambda>c. Dual0)(Var 0 := \<lparr>val = 2, grad = 0\<rparr>)) (Var 0))
   \<and> map_sum id snd (derivative_dual (PowExpr (DualExpr (Ref (Var 0))) (Number 3)) 0
         ((\<lambda>c. Dual0)(Var 0 := \<lparr>val = 2, grad = 0\<rparr>))) = Inr 12
   \<and> target (Var 0) (assignPow ((\<lambda>c. Dual0)(Var 0 := \<lparr>val = 2, grad = 0\<rparr>)) (Var 0) (Number 1) 0)
       = Inr \<lparr>val = 2, grad = 0\<rparr>"
  using pow_scalar_rule[of "(\<lambda>c. Dual0)(Var 0 := \<lparr>val = 2, grad = 0\<rparr>)" 0 "Var 0" 1 0 "Tmp 0"]
  by simp

text \<open>
  At \<open>val(x) = 0\<close> the claim fails: the derivative of \<open>x\<^sup>3\<close> is 0 there, and the code
  divides \<open>p\<close> by \<open>self.val\<close> (in IEEE arithmetic \<open>3.0 / 0.0\<close> is infinite and its
  product with \<open>val' = 0\<close> is not a number).
\<close>

theorem pow_at_zero_counterexample:
  "map_sum id snd (derivative_dual (PowExpr (DualExpr (Ref (Var 0))) (Number 3)) 0
       ((\<lambda>c. Dual0)(Var 0 := \<lparr>val = 0, grad = 0\<rparr>))) = Inl NotFinite
   \<and> map_sum id snd (derivative_dual (PowExpr (DualExpr (Ref (Var 0))) (Number 3)) 0
       ((\<lambda>c. Dual0)(Var 0 := \<lparr>val = 0, grad = 0\<rparr>)))
      \<noteq> Inr (3 * val (((\<lambda>c. Dual0)(Var 0 := \<lparr>val = 0, grad = 0\<rparr>)) (Var 0))
               * val (((\<lambda>c. Dual0)(Var 0 := \<lparr>val = 0, grad = 0\<rparr>)) (Var 0)))"
  by (simp add: derivative_dual_def Let_def assign_dual_def setters_simps assignPow_num_def
        bnd_simps fdiv_simps fpow_def)

section \<open>The reduction computes the reference value\<close>

lemma rd_upd: "self \<notin> operand_refs d \<Longrightarrow> rd (s(self := x)) d = rd s d"
  by (cases d) auto

lemma rd_set_val: "self \<notin> operand_refs d \<Longrightarrow> rd (set_val s self v) d = rd s d"
  by (cases d) (auto simp: set_val_def)

lemma rd_set_grad: "self \<notin> operand_refs d \<Longrightarrow> rd (set_grad s self v) d = rd s d"
  by (cases d) (auto simp: set_grad_def)

lemma dual_eqI: "val a = val b \<Longrightarrow> grad a = grad b \<Longrightarrow> a = (b::dual)"
  by simp

lemma assign_num_eq: "assign_num s self c = s(self := \<lparr>val = c, grad = 0\<rparr>)"
  by (rule ext) (simp add: assign_num_def setters_simps)

lemma assign_dual_eq:
  "self \<notin> operand_refs d \<Longrightarrow> assign_dual s self d = s(self := rd s d)"
  by (rule ext) (simp add: assign_dual_def Let_def setters_simps rd_set_val)

lemma scale_eq:
  "scale s self c = s(self := \<lparr>val = val (s self) * c, grad = grad (s self) * c\<rparr>)"
  by (rule ext) (simp add: scale_def Let_def setters_simps)

lemma negate_eq:
  "negate s self = s(self := \<lparr>val = - val (s self), grad = - grad (s self)\<rparr>)"
  by (rule ext) (simp add: negate_def Let_def setters_simps)

lemma assignAdd_num_eq:
  "assignAdd_num s self c = s(self := dual_add (s self) \<lparr>val = c, grad = 0\<rparr>)"
  by (rule ext) (simp add: assignAdd_num_def setters_simps dual_add_def)

lemma assignAdd_dual_eq:
  "self \<notin> operand_refs d \<Longrightarrow> assignAdd_dual s self d = s(self := dual_add (s self) (rd s d))"
  by (rule ext) (simp add: assignAdd_dual_def Let_def setters_simps dual_add_def rd_set_val)

lemma assignAdd_ndm_eq:
  "self \<notin> operand_refs d \<Longrightarrow>
   assignAdd_ndm s self c d
     = s(self := dual_add (s self) \<lparr>val = c * val (rd s d), grad = c * grad (rd s d)\<rparr>)"
  by (rule ext) (simp add: assignAdd_ndm_def Let_def setters_simps dual_add_def rd_set_val)

lemma assignMul_num_eq:
  "assignMul_num s self c = s(self := dual_mul (s self) \<lparr>val = c, grad = 0\<rparr>)"
  by (rule ext) (simp add: assignMul_num_def Let_def setters_simps dual_mul_def)

lemma assignMul_dual_eq:
  "self \<notin> operand_refs d \<Longrightarrow> assignMul_dual s self d = s(self := dual_mul (s self) (rd s d))"
  by (rule ext)
     (simp add: assignMul_dual_def Let_def setters_simps dual_mul_def rd_set_val rd_set_grad)

lemma assignMul_ndm_eq:
  "self \<notin> operand_refs d \<Longrightarrow>
   assignMul_ndm s self c d
     = s(self := dual_mul (s self) \<lparr>val = c * val (rd s d), grad = c * grad (rd s d)\<rparr>)"
  by (rule ext)
     (simp add: assignMul_ndm_def Let_def setters_simps dual_mul_def rd_set_val rd_set_grad
        algebra_simps)

lemma abs_le_one_sq: "(\<bar>v\<bar> \<le> 1) = (v * v \<le> (1::real))"
  using abs_square_le_1[of v] by (simp add: power2_eq_square)

lemma one_plus_sq_neq_0: "1 + v * v \<noteq> (0::real)"
proof -
  have "0 \<le> v * v" by simp
  then show ?thesis by linarith
qed

lemma apply_op_ref: "apply_op op d = ref_apply op d"
  by (cases op)
     (auto simp add: ref_apply_def bnd_def fdiv_def fsqrt_def flog_def flog10_def fasin_def
        facos_def ln10_def power2_eq_square abs_le_one_sq one_plus_sq_neq_0 split: sum.splits)

lemma apply_cell_eq:
  "apply_cell op s self = bnd (ref_apply op (s self)) (\<lambda>d. Inr (s(self := d)))"
  by (simp add: apply_cell_def apply_op_ref)

lemma assignAddNegativeDual_eq:
  "self \<notin> operand_refs t \<Longrightarrow>
   bnd (ref_apply NegOp (rd s t)) (\<lambda>d. Inr (s(self := dual_add (s self) d)))
     = Inr (assignAddNegativeDual s self t)"
  by (simp add: ref_apply_def bnd_def, rule ext)
     (simp add: assignAddNegativeDual_def Let_def setters_simps dual_add_def rd_set_val)

lemma assignAddInverseDual_eq:
  "self \<notin> operand_refs t \<Longrightarrow>
   assignAddInverseDual s self t
     = bnd (ref_apply InvOp (rd s t)) (\<lambda>d. Inr (s(self := dual_add (s self) d)))"
  by (auto simp add: assignAddInverseDual_def ref_apply_def bnd_def fdiv_def Let_def
        setters_simps dual_add_def rd_set_val power2_eq_square fun_eq_iff)

lemma assignPow_num_eq:
  "assignPow_num s self p = bnd (ref_pow_number (s self) p) (\<lambda>d. Inr (s(self := d)))"
  by (auto simp add: assignPow_num_def ref_pow_number_def bnd_def fdiv_def Let_def
        setters_simps fun_eq_iff split: sum.splits)

lemma assignPow_dual_eq:
  "self \<notin> operand_refs d \<Longrightarrow>
   assignPow_dual s self d = bnd (ref_pow_dual (s self) (rd s d)) (\<lambda>d. Inr (s(self := d)))"
  by (auto simp add: assignPow_dual_def ref_pow_dual_def bnd_def fdiv_def flog_def fpow_def
        Let_def setters_simps rd_set_grad fun_eq_iff algebra_simps split: sum.splits)


lemma tmp_from_Suc: "\<not> tmp_from n c \<Longrightarrow> \<not> tmp_from (Suc n) c"
  by (cases c) auto

lemma tmp_from_neq: "\<not> tmp_from n c \<Longrightarrow> c \<noteq> Tmp n"
  by (cases c) auto

lemma prim_frame:
  "c \<noteq> self \<Longrightarrow> assign_num s self x c = s c"
  "c \<noteq> self \<Longrightarrow> assign_dual s self d c = s c"
  "c \<noteq> self \<Longrightarrow> scale s self x c = s c"
  "c \<noteq> self \<Longrightarrow> negate s self c = s c"
  "c \<noteq> self \<Longrightarrow> assignAdd_num s self x c = s c"
  "c \<noteq> self \<Longrightarrow> assignAdd_dual s self d c = s c"
  "c \<noteq> self \<Longrightarrow> assignAdd_ndm s self x d c = s c"
  "c \<noteq> self \<Longrightarrow> assignAddNegativeDual s self d c = s c"
  "c \<noteq> self \<Longrightarrow> assignMul_num s self x c = s c"
  "c \<noteq> self \<Longrightarrow> assignMul_dual s self d c = s c"
  "c \<noteq> self \<Longrightarrow> assignMul_ndm s self x d c = s c"
  by (simp_all add: assign_num_def assign_dual_def scale_def negate_def assignAdd_num_def
      assignAdd_dual_def assignAdd_ndm_def assignAddNegativeDual_def assignMul_num_def
      assignMul_dual_def assignMul_ndm_def Let_def setters_simps)

lemma prim_frame_fail:
  "apply_cell op s self = Inr s' \<Longrightarrow> c \<noteq> self \<Longrightarrow> s' c = s c"
  "assignAddInverseDual s self d = Inr s' \<Longrightarrow> c \<noteq> self \<Longrightarrow> s' c = s c"
  "assignPow_num s self x = Inr s' \<Longrightarrow> c \<noteq> self \<Longrightarrow> s' c = s c"
  "assignPow_dual s self d = Inr s' \<Longrightarrow> c \<noteq> self \<Longrightarrow> s' c = s c"
  by (auto simp add: apply_cell_def assignAddInverseDual_def assignPow_num_def assignPow_dual_def
      bnd_def Let_def setters_simps split: sum.splits)

lemma frame_all:
  "assign s self e n = Inr s' \<Longrightarrow> c \<noteq> self \<Longrightarrow> \<not> tmp_from n c \<Longrightarrow> s' c = s c"
  "assign_tmp s self e t n = Inr s' \<Longrightarrow> c \<noteq> self \<Longrightarrow> c \<noteq> t \<Longrightarrow> \<not> tmp_from n c \<Longrightarrow> s' c = s c"
  "eval s e n = Inr s' \<Longrightarrow> \<not> tmp_from n c \<Longrightarrow> s' c = s c"
  "assignAdd s self e n = Inr s' \<Longrightarrow> c \<noteq> self \<Longrightarrow> \<not> tmp_from n c \<Longrightarrow> s' c = s c"
  "assignAdd_tmp s self e t n = Inr s' \<Longrightarrow> c \<noteq> self \<Longrightarrow> c \<noteq> t \<Longrightarrow> \<not> tmp_from n c \<Longrightarrow> s' c = s c"
  "assignMul s self e n = Inr s' \<Longrightarrow> c \<noteq> self \<Longrightarrow> \<not> tmp_from n c \<Longrightarrow> s' c = s c"
  "assignMul_tmp s self e t n = Inr s' \<Longrightarrow> c \<noteq> self \<Longrightarrow> c \<noteq> t \<Longrightarrow> \<not> tmp_from n c \<Longrightarrow> s' c = s c"
  "assignPow s self e n = Inr s' \<Longrightarrow> c \<noteq> self \<Longrightarrow> \<not> tmp_from n c \<Longrightarrow> s' c = s c"
  "assignPow_tmp s self e t n = Inr s' \<Longrightarrow> c \<noteq> self \<Longrightarrow> c \<noteq> t \<Longrightarrow> \<not> tmp_from n c \<Longrightarrow> s' c = s c"
proof (induction s self e n and s self e t n and s e n and s self e n and s self e t n
    and s self e n and s self e t n and s self e n and s self e t n
    arbitrary: s' and s' and s' and s' and s' and s' and s' and s' and s'
    rule: assign_assign_tmp_eval_assignAdd_assignAdd_tmp_assignMul_assignMul_tmp_assignPow_assignPow_tmp.induct)
qed (auto simp add: prim_frame tmp_from_Suc tmp_from_neq split: sum.splits if_splits
      dest: prim_frame_fail, metis+)


lemma rd_cong: "(\<forall>c\<in>operand_refs d. s1 c = s2 c) \<Longrightarrow> rd s1 d = rd s2 d"
  by (cases d) auto

lemma ref_eval_cong: "(\<forall>c\<in>refs e. s1 c = s2 c) \<Longrightarrow> ref_eval s1 e = ref_eval s2 e"
proof (induction e)
  case (DualExpr d)
  then show ?case by (simp add: rd_cong[of d s1 s2])
next
  case (NumberDualMulExpr x d)
  then show ?case by (simp add: rd_cong[of d s1 s2])
qed auto

lemma ref_apply_failure: "ref_apply op d = Inl f \<Longrightarrow> f = NotFinite"
  by (cases op) (auto simp: ref_apply_def bnd_def split: if_splits)

lemma ref_pow_failure:
  "ref_pow_number b p = Inl f \<Longrightarrow> f = NotFinite"
  "ref_pow_dual b d = Inl f \<Longrightarrow> f = NotFinite"
  by (auto simp: ref_pow_number_def ref_pow_dual_def fpow_def bnd_def split: if_splits sum.splits)

lemma ref_eval_failure: "ref_eval s e = Inl f \<Longrightarrow> f = NotFinite"
proof (induction e arbitrary: f)
  case (PowExpr l r)
  then show ?case
    by (cases r) (auto simp: bnd_def split: sum.splits dest: ref_pow_failure)
qed (auto simp: bnd_def split: sum.splits dest: ref_apply_failure)

lemma stab:
  "assign s self e n = Inr s' \<Longrightarrow> self \<notin> refs e' \<Longrightarrow> (\<forall>c\<in>refs e'. \<not> tmp_from n c) \<Longrightarrow>
     ref_eval s' e' = ref_eval s e'"
  "assign_tmp s self e t n = Inr s' \<Longrightarrow> self \<notin> refs e' \<Longrightarrow> t \<notin> refs e' \<Longrightarrow>
     (\<forall>c\<in>refs e'. \<not> tmp_from n c) \<Longrightarrow> ref_eval s' e' = ref_eval s e'"
  "eval s e n = Inr s' \<Longrightarrow> (\<forall>c\<in>refs e'. \<not> tmp_from n c) \<Longrightarrow> ref_eval s' e' = ref_eval s e'"
  "assignAdd s self e n = Inr s' \<Longrightarrow> self \<notin> refs e' \<Longrightarrow> (\<forall>c\<in>refs e'. \<not> tmp_from n c) \<Longrightarrow>
     ref_eval s' e' = ref_eval s e'"
  "assignAdd_tmp s self e t n = Inr s' \<Longrightarrow> self \<notin> refs e' \<Longrightarrow> t \<notin> refs e' \<Longrightarrow>
     (\<forall>c\<in>refs e'. \<not> tmp_from n c) \<Longrightarrow> ref_eval s' e' = ref_eval s e'"
  "assignMul s self e n = Inr s' \<Longrightarrow> self \<notin> refs e' \<Longrightarrow> (\<forall>c\<in>refs e'. \<not> tmp_from n c) \<Longrightarrow>
     ref_eval s' e' = ref_eval s e'"
  "assignMul_tmp s self e t n = Inr s' \<Longrightarrow> self \<notin> refs e' \<Longrightarrow> t \<notin> refs e' \<Longrightarrow>
     (\<forall>c\<in>refs e'. \<not> tmp_from n c) \<Longrightarrow> ref_eval s' e' = ref_eval s e'"
  by (rule ref_eval_cong, metis frame_all)+

lemma dual_add_commute: "dual_add a b = dual_add b a"
  by (simp add: dual_add_def)

lemma dual_mul_commute: "dual_mul a b = dual_mul b a"
  by (simp add: dual_mul_def algebra_simps)

lemma target_bnd_upd: "target self (bnd m (\<lambda>d. Inr (s(self := d)))) = m"
  by (cases m) (simp_all add: target_simps bnd_simps)

lemma target_bnd_upd2: "t \<noteq> self \<Longrightarrow> target self (bnd m (\<lambda>d. Inr (s(t := d)))) = bnd m (\<lambda>d. Inr (s self))"
  by (cases m) (simp_all add: target_simps bnd_simps)

lemma bnd_fail_absorb:
  "ref_eval s r = Inl x1 \<Longrightarrow> bnd (ref_eval s l) (\<lambda>a. Inl x1) = Inl x1"
  by (cases "ref_eval s l") (auto simp: bnd_simps dest!: ref_eval_failure)

lemma tmp_notin: "(\<forall>c\<in>R. \<not> tmp_from n c) \<Longrightarrow> Tmp n \<notin> R"
  by auto

lemma tmp_notin_Suc: "(\<forall>c\<in>R. \<not> tmp_from n c) \<Longrightarrow> (\<forall>c\<in>R. \<not> tmp_from (Suc n) c)"
  by (auto dest: tmp_from_Suc)

lemma ref_eval_upd: "c \<notin> refs e \<Longrightarrow> ref_eval (s(c := x)) e = ref_eval s e"
  by (rule ref_eval_cong) auto

lemma tmp_from_neq2: "\<not> tmp_from n c \<Longrightarrow> Tmp n \<noteq> c"
  by (cases c) auto

lemma rd_Ref_upd: "rd (s(c := x)) (Ref c') = (if c' = c then x else rd s (Ref c'))"
  by simp

lemma target_rd:
  "target c (Inl e) = Inl e"
  "target c (Inr s) = Inr (rd s (Ref c))"
  by (simp_all add: target_simps)

lemma prim_rd:
  "scale s self c = s(self := \<lparr>val = c * val (rd s (Ref self)), grad = c * grad (rd s (Ref self))\<rparr>)"
  "negate s self = s(self := \<lparr>val = - val (rd s (Ref self)), grad = - grad (rd s (Ref self))\<rparr>)"
  "assignAdd_num s self c = s(self := dual_add (rd s (Ref self)) \<lparr>val = c, grad = 0\<rparr>)"
  "self \<notin> operand_refs d \<Longrightarrow> assignAdd_dual s self d = s(self := dual_add (rd s (Ref self)) (rd s d))"
  "self \<notin> operand_refs d \<Longrightarrow> assignAdd_ndm s self c d
     = s(self := dual_add (rd s (Ref self)) \<lparr>val = c * val (rd s d), grad = c * grad (rd s d)\<rparr>)"
  "self \<notin> operand_refs d \<Longrightarrow> Inr (assignAddNegativeDual s self d)
     = bnd (ref_apply NegOp (rd s d)) (\<lambda>x. Inr (s(self := dual_add (rd s (Ref self)) x)))"
  "self \<notin> operand_refs d \<Longrightarrow> assignAddInverseDual s self d
     = bnd (ref_apply InvOp (rd s d)) (\<lambda>x. Inr (s(self := dual_add (rd s (Ref self)) x)))"
  "assignMul_num s self c = s(self := dual_mul (rd s (Ref self)) \<lparr>val = c, grad = 0\<rparr>)"
  "self \<notin> operand_refs d \<Longrightarrow> assignMul_dual s self d = s(self := dual_mul (rd s (Ref self)) (rd s d))"
  "self \<notin> operand_refs d \<Longrightarrow> assignMul_ndm s self c d
     = s(self := dual_mul (rd s (Ref self)) \<lparr>val = c * val (rd s d), grad = c * grad (rd s d)\<rparr>)"
  "apply_cell op s self = bnd (ref_apply op (rd s (Ref self))) (\<lambda>d. Inr (s(self := d)))"
  "assignPow_num s self p = bnd (ref_pow_number (rd s (Ref self)) p) (\<lambda>d. Inr (s(self := d)))"
  "self \<notin> operand_refs d \<Longrightarrow> assignPow_dual s self d
     = bnd (ref_pow_dual (rd s (Ref self)) (rd s d)) (\<lambda>d. Inr (s(self := d)))"
  by (simp_all add: scale_eq negate_eq assignAdd_num_eq assignAdd_dual_eq assignAdd_ndm_eq
      assignAddNegativeDual_eq assignAddInverseDual_eq assignMul_num_eq assignMul_dual_eq
      assignMul_ndm_eq apply_cell_eq assignPow_num_eq assignPow_dual_eq mult.commute)

lemma fr:
  "assign s self e n = Inr s' \<Longrightarrow> c \<noteq> self \<Longrightarrow> \<not> tmp_from n c \<Longrightarrow> rd s' (Ref c) = rd s (Ref c)"
  "assign_tmp s self e t n = Inr s' \<Longrightarrow> c \<noteq> self \<Longrightarrow> c \<noteq> t \<Longrightarrow> \<not> tmp_from n c \<Longrightarrow> rd s' (Ref c) = rd s (Ref c)"
  "eval s e n = Inr s' \<Longrightarrow> \<not> tmp_from n c \<Longrightarrow> rd s' (Ref c) = rd s (Ref c)"
  "assignAdd s self e n = Inr s' \<Longrightarrow> c \<noteq> self \<Longrightarrow> \<not> tmp_from n c \<Longrightarrow> rd s' (Ref c) = rd s (Ref c)"
  "assignAdd_tmp s self e t n = Inr s' \<Longrightarrow> c \<noteq> self \<Longrightarrow> c \<noteq> t \<Longrightarrow> \<not> tmp_from n c \<Longrightarrow> rd s' (Ref c) = rd s (Ref c)"
  "assignMul s self e n = Inr s' \<Longrightarrow> c \<noteq> self \<Longrightarrow> \<not> tmp_from n c \<Longrightarrow> rd s' (Ref c) = rd s (Ref c)"
  "assignMul_tmp s self e t n = Inr s' \<Longrightarrow> c \<noteq> self \<Longrightarrow> c \<noteq> t \<Longrightarrow> \<not> tmp_from n c \<Longrightarrow> rd s' (Ref c) = rd s (Ref c)"
  "assignPow s self e n = Inr s' \<Longrightarrow> c \<noteq> self \<Longrightarrow> \<not> tmp_from n c \<Longrightarrow> rd s' (Ref c) = rd s (Ref c)"
  "assignPow_tmp s self e t n = Inr s' \<Longrightarrow> c \<noteq> self \<Longrightarrow> c \<noteq> t \<Longrightarrow> \<not> tmp_from n c \<Longrightarrow> rd s' (Ref c) = rd s (Ref c)"
  by (simp_all add: frame_all)

lemma bnd_bnd_Inr: "bnd (bnd m (\<lambda>b. Inr (f b))) g = bnd m (\<lambda>b. g (f b))"
  by (cases m) (simp_all add: bnd_simps)

lemma ref_apply_Neg: "ref_apply NegOp d = Inr \<lparr>val = - val d, grad = - grad d\<rparr>"
  by (simp add: ref_apply_def bnd_simps)

lemma dual_mul_neg:
  "\<lparr>val = - val (dual_mul a b), grad = - grad (dual_mul a b)\<rparr>
     = dual_mul \<lparr>val = - val a, grad = - grad a\<rparr> b"
  by (simp add: dual_mul_def)

lemma target_bnd_upd_f:
  "target self (bnd m (\<lambda>x. Inr (s(self := f x)))) = bnd m (\<lambda>x. Inr (f x))"
  by (cases m) (simp_all add: target_simps bnd_simps)

lemma bnd_Inr_iff:
  "(bnd m (\<lambda>d. Inr (f d)) = Inl x) = (m = Inl x)"
  "(bnd m (\<lambda>d. Inr (f d)) = Inr y) = (\<exists>d. m = Inr d \<and> y = f d)"
  by (cases m; auto simp: bnd_simps)+

lemma bnd_assoc: "bnd (bnd m f) g = bnd m (\<lambda>x. bnd (f x) g)"
  by (cases m) (simp_all add: bnd_simps)

lemma dual_add_ac:
  "dual_add (dual_add a b) c = dual_add a (dual_add b c)"
  "dual_add a (dual_add b c) = dual_add b (dual_add a c)"
  by (simp_all add: dual_add_def)

lemma dual_mul_ac:
  "dual_mul (dual_mul a b) c = dual_mul a (dual_mul b c)"
  "dual_mul a (dual_mul b c) = dual_mul b (dual_mul a c)"
  by (simp_all add: dual_mul_def algebra_simps)

lemmas vsimps = target_rd bnd_simps assign_num_eq assign_dual_eq prim_rd stab fr rd_Ref_upd
      target_bnd_upd bnd_fail_absorb tmp_notin tmp_notin_Suc dual_add_commute dual_mul_commute
      tmp_from_Suc tmp_from_neq tmp_from_neq2 ref_eval_upd
      target_bnd_upd_f bnd_Inr_iff bnd_bnd_Inr dual_add_ac dual_mul_ac ref_apply_Neg dual_mul_neg

lemma value_all:
  "\<not> tmp_from n self \<Longrightarrow> self \<notin> refs e \<Longrightarrow> (\<forall>c\<in>refs e. \<not> tmp_from n c) \<Longrightarrow> well_formed e \<Longrightarrow>
     ref_eval s e = target self (assign s self e n)"
  "\<not> tmp_from n self \<Longrightarrow> \<not> tmp_from n t \<Longrightarrow> t \<noteq> self \<Longrightarrow> self \<notin> refs e \<Longrightarrow> t \<notin> refs e \<Longrightarrow>
     (\<forall>c\<in>refs e. \<not> tmp_from n c) \<Longrightarrow> well_formed e \<Longrightarrow>
     ref_eval s e = target self (assign_tmp s self e t n)"
  "(\<forall>c\<in>refs e. \<not> tmp_from n c) \<Longrightarrow> well_formed e \<Longrightarrow> is_expr e \<Longrightarrow>
     ref_eval s e = target (Tmp n) (eval s e n)"
  "\<not> tmp_from n self \<Longrightarrow> self \<notin> refs e \<Longrightarrow> (\<forall>c\<in>refs e. \<not> tmp_from n c) \<Longrightarrow> well_formed e \<Longrightarrow>
     bnd (ref_eval s e) (\<lambda>d. Inr (dual_add (rd s (Ref self)) d)) = target self (assignAdd s self e n)"
  "\<not> tmp_from n self \<Longrightarrow> \<not> tmp_from n t \<Longrightarrow> t \<noteq> self \<Longrightarrow> self \<notin> refs e \<Longrightarrow> t \<notin> refs e \<Longrightarrow>
     (\<forall>c\<in>refs e. \<not> tmp_from n c) \<Longrightarrow> well_formed e \<Longrightarrow>
     bnd (ref_eval s e) (\<lambda>d. Inr (dual_add (rd s (Ref self)) d)) = target self (assignAdd_tmp s self e t n)"
  "\<not> tmp_from n self \<Longrightarrow> self \<notin> refs e \<Longrightarrow> (\<forall>c\<in>refs e. \<not> tmp_from n c) \<Longrightarrow> well_formed e \<Longrightarrow>
     bnd (ref_eval s e) (\<lambda>d. Inr (dual_mul (rd s (Ref self)) d)) = target self (assignMul s self e n)"
  "\<not> tmp_from n self \<Longrightarrow> \<not> tmp_from n t \<Longrightarrow> t \<noteq> self \<Longrightarrow> self \<notin> refs e \<Longrightarrow> t \<notin> refs e \<Longrightarrow>
     (\<forall>c\<in>refs e. \<not> tmp_from n c) \<Longrightarrow> well_formed e \<Longrightarrow>
     bnd (ref_eval s e) (\<lambda>d. Inr (dual_mul (rd s (Ref self)) d)) = target self (assignMul_tmp s self e t n)"
  "\<not> tmp_from n self \<Longrightarrow> self \<notin> refs e \<Longrightarrow> (\<forall>c\<in>refs e. \<not> tmp_from n c) \<Longrightarrow> well_formed e \<Longrightarrow>
     ref_pow_with (rd s (Ref self)) e (ref_eval s e) = target self (assignPow s self e n)"
  "\<not> tmp_from n self \<Longrightarrow> \<not> tmp_from n t \<Longrightarrow> t \<noteq> self \<Longrightarrow> self \<notin> refs e \<Longrightarrow> t \<notin> refs e \<Longrightarrow>
     (\<forall>c\<in>refs e. \<not> tmp_from n c) \<Longrightarrow> well_formed e \<Longrightarrow>
     ref_pow_with (rd s (Ref self)) e (ref_eval s e) = target self (assignPow_tmp s self e t n)"
proof (induction s self e n and s self e t n and s e n and s self e n and s self e t n
    and s self e n and s self e t n and s self e n and s self e t n
    rule: assign_assign_tmp_eval_assignAdd_assignAdd_tmp_assignMul_assignMul_tmp_assignPow_assignPow_tmp.induct)
qed (simp_all add: vsimps del: rd.simps(1), auto simp add: vsimps simp del: rd.simps(1) split: sum.split)

lemma user_no_tmp: "user_expr e \<Longrightarrow> \<forall>c\<in>refs e. \<not> tmp_from n c"
proof
  fix c assume u: "user_expr e" and c: "c \<in> refs e"
  then have "\<not> is_tmp c" by (simp add: user_expr_def)
  then show "\<not> tmp_from n c" by (cases c) simp_all
qed

lemma user_not_Tmp: "user_expr e \<Longrightarrow> Tmp k \<notin> refs e"
  by (auto simp add: user_expr_def)

text \<open>
  C1 (amended). For every well-formed tree \<open>e\<close> of the caller, the constructor
  \<open>Dual(e)\<close> produces the dual that the reference evaluator computes for \<open>e\<close> in the
  store of the call, failure for failure. For a variable \<open>x\<close> to which no operand of
  the tree refers, \<open>assign(x, e)\<close>, \<open>x = e\<close> and, for a scratch dual \<open>y\<close> other than
  \<open>x\<close> to which no operand refers, \<open>assign(x, e, y)\<close> leave that dual in \<open>x\<close>.
\<close>

theorem assign_computes_reference:
  assumes "well_formed e" and "user_expr e"
  shows "Dual_expr s e n = ref_eval s e
       \<and> (Var x \<notin> refs e \<longrightarrow>
            target (Var x) (assign s (Var x) e n) = ref_eval s e
          \<and> target (Var x) (Dual_assign s x e) = ref_eval s e
          \<and> (y \<noteq> x \<and> Var y \<notin> refs e \<longrightarrow>
               target (Var x) (assign_tmp s (Var x) e (Var y) n) = ref_eval s e))"
proof -
  note u = user_no_tmp[OF assms(2)]
  have "Dual_expr s e n = target (Tmp n) (assign s (Tmp n) e (Suc n))"
    by (simp add: Dual_expr_def target_def)
  also have "\<dots> = ref_eval s e"
    using value_all(1)[of "Suc n" "Tmp n" e s] u[of "Suc n"] assms user_not_Tmp[OF assms(2)]
    by simp
  finally have 1: "Dual_expr s e n = ref_eval s e" .
  have 2: "target (Var x) (assign s (Var x) e k) = ref_eval s e" if "Var x \<notin> refs e" for k
    using value_all(1)[of k "Var x" e s] u[of k] assms that by simp
  have 3: "target (Var x) (assign_tmp s (Var x) e (Var y) n) = ref_eval s e"
    if "Var x \<notin> refs e" "y \<noteq> x" "Var y \<notin> refs e"
    using value_all(2)[of n "Var x" "Var y" e s] u[of n] assms that by simp
  from 1 2 3 show ?thesis by (simp add: Dual_assign_def)
qed

theorem assign_computes_reference_witness:
  "well_formed (MulExpr (DualExpr (Ref (Var 1))) (UnaryExpr NegOp (DualExpr (Ref (Var 2)))))
   \<and> user_expr (MulExpr (DualExpr (Ref (Var 1))) (UnaryExpr NegOp (DualExpr (Ref (Var 2)))))
   \<and> Var 0 \<notin> refs (MulExpr (DualExpr (Ref (Var 1))) (UnaryExpr NegOp (DualExpr (Ref (Var 2)))))
   \<and> target (Var 0) (Dual_assign
        ((\<lambda>c. Dual0)(Var 1 := \<lparr>val = 2, grad = 1\<rparr>, Var 2 := \<lparr>val = 3, grad = 1\<rparr>)) 0
        (MulExpr (DualExpr (Ref (Var 1))) (UnaryExpr NegOp (DualExpr (Ref (Var 2))))))
      = Inr \<lparr>val = - 6, grad = - 5\<rparr>"
proof -
  let ?e = "MulExpr (DualExpr (Ref (Var 1))) (UnaryExpr NegOp (DualExpr (Ref (Var 2))))"
  let ?S = "(\<lambda>c. Dual0)(Var 1 := \<lparr>val = 2, grad = 1\<rparr>, Var 2 := \<lparr>val = 3, grad = 1\<rparr>)"
  have h: "well_formed ?e" "user_expr ?e" "Var 0 \<notin> refs ?e"
    by (simp_all add: user_expr_def)
  from assign_computes_reference[OF h(1,2), of ?S 0 0 1] h(3)
  have "target (Var 0) (Dual_assign ?S 0 ?e) = ref_eval ?S ?e" by blast
  also have "\<dots> = Inr \<lparr>val = - 6, grad = - 5\<rparr>"
    by (simp add: bnd_simps ref_apply_def dual_mul_def)
  finally show ?thesis using h by simp
qed

text \<open>
  When the tree refers to the target the claim fails. \<open>x = x + y\<close> with \<open>x = (2, 1)\<close>
  and \<open>y = (6, 0)\<close>: the right operand is assigned first, \<open>x\<close> becomes \<open>(6, 0)\<close>, and
  the left operand, \<open>x\<close> itself, is then added to it, which leaves \<open>(12, 0)\<close>; the value
  of \<open>x + y\<close> is \<open>(8, 1)\<close>.
\<close>

theorem aliased_assign_counterexample:
  "target (Var 0) (Dual_assign
      ((\<lambda>c. Dual0)(Var 0 := \<lparr>val = 2, grad = 1\<rparr>, Var 1 := \<lparr>val = 6, grad = 0\<rparr>)) 0
      (AddExpr (DualExpr (Ref (Var 0))) (DualExpr (Ref (Var 1)))))
     = Inr \<lparr>val = 12, grad = 0\<rparr>
   \<and> ref_eval ((\<lambda>c. Dual0)(Var 0 := \<lparr>val = 2, grad = 1\<rparr>, Var 1 := \<lparr>val = 6, grad = 0\<rparr>))
      (AddExpr (DualExpr (Ref (Var 0))) (DualExpr (Ref (Var 1))))
     = Inr \<lparr>val = 8, grad = 1\<rparr>
   \<and> well_formed (AddExpr (DualExpr (Ref (Var 0))) (DualExpr (Ref (Var 1))))
   \<and> user_expr (AddExpr (DualExpr (Ref (Var 0))) (DualExpr (Ref (Var 1))))"
  by (simp add: Dual_assign_def bnd_simps target_simps assign_dual_def assignAdd_dual_def
      setters_simps Let_def dual_add_def user_expr_def)

section \<open>The two call shapes\<close>

lemma so_simps:
  "same_outcome t n (Inl f) m2 = (m2 = Inl f)"
  "same_outcome t n (Inr a) (Inr b) = eq_outside t n a b"
  "same_outcome t n (Inr a) (Inl f) = False"
  by (simp_all add: same_outcome_def)

lemma so_case:
  assumes "same_outcome t n m m2"
    and "\<And>a b. m = Inr a \<Longrightarrow> m2 = Inr b \<Longrightarrow> eq_outside t n a b \<Longrightarrow> same_outcome t n (f a) (g b)"
  shows "same_outcome t n (case m of Inl e \<Rightarrow> Inl e | Inr a \<Rightarrow> f a)
                         (case m2 of Inl e \<Rightarrow> Inl e | Inr b \<Rightarrow> g b)"
proof (cases m)
  case (Inl f)
  with assms(1) show ?thesis by (simp add: so_simps)
next
  case (Inr a)
  with assms(1) obtain b where b: "m2 = Inr b" "eq_outside t n a b"
    by (cases m2) (auto simp: so_simps)
  from assms(2)[OF Inr b] show ?thesis using Inr b by simp
qed

lemma rd_eqo:
  "eq_outside t n a b \<Longrightarrow> t \<notin> operand_refs d \<Longrightarrow> (\<forall>c\<in>operand_refs d. \<not> tmp_from n c) \<Longrightarrow> rd a d = rd b d"
  by (cases d) (auto simp: eq_outside_def)

lemma ref_eval_eqo:
  "eq_outside t n a b \<Longrightarrow> t \<notin> refs e \<Longrightarrow> (\<forall>c\<in>refs e. \<not> tmp_from n c) \<Longrightarrow> ref_eval a e = ref_eval b e"
  by (rule ref_eval_cong) (auto simp: eq_outside_def)

text \<open>the primitive steps respect the agreement, also when the operand is the target\<close>

lemma prim_eqo:
  assumes "eq_outside t n a b" "self \<noteq> t" "\<not> tmp_from n self"
    "t \<notin> operand_refs d" "\<forall>c\<in>operand_refs d. \<not> tmp_from n c"
  shows "eq_outside t n (assign_num a self x) (assign_num b self x)"
    "eq_outside t n (assign_dual a self d) (assign_dual b self d)"
    "eq_outside t n (scale a self x) (scale b self x)"
    "eq_outside t n (negate a self) (negate b self)"
    "eq_outside t n (assignAdd_num a self x) (assignAdd_num b self x)"
    "eq_outside t n (assignAdd_dual a self d) (assignAdd_dual b self d)"
    "eq_outside t n (assignAdd_ndm a self x d) (assignAdd_ndm b self x d)"
    "eq_outside t n (assignMul_num a self x) (assignMul_num b self x)"
    "eq_outside t n (assignMul_dual a self d) (assignMul_dual b self d)"
    "eq_outside t n (assignMul_ndm a self x d) (assignMul_ndm b self x d)"
    "same_outcome t n (apply_cell op a self) (apply_cell op b self)"
    "same_outcome t n (assignPow_num a self x) (assignPow_num b self x)"
    "same_outcome t n (assignPow_dual a self d) (assignPow_dual b self d)"
proof -
  have s: "a self = b self" using assms by (simp add: eq_outside_def)
  have r: "\<And>x y. rd (a(self := x)) d = rd (b(self := x)) d"
    using assms by (cases d) (auto simp: eq_outside_def)
  have r0: "rd a d = rd b d" using rd_eqo[OF assms(1,4,5)] .
  have u: "\<And>x. eq_outside t n (a(self := x)) (b(self := x))"
    using assms by (simp add: eq_outside_def)
  note defs = assign_num_def assign_dual_def scale_def negate_def assignAdd_num_def
      assignAdd_dual_def assignAdd_ndm_def assignMul_num_def assignMul_dual_def
      assignMul_ndm_def apply_cell_def assignPow_num_def assignPow_dual_def
      Let_def set_val_def set_grad_def
  show "eq_outside t n (assign_num a self x) (assign_num b self x)"
    using assms(1) by (simp add: defs eq_outside_def)
  show "eq_outside t n (assign_dual a self d) (assign_dual b self d)"
    using assms(1) r r0 s by (simp add: defs eq_outside_def)
  show "eq_outside t n (scale a self x) (scale b self x)"
    using assms(1) s by (simp add: defs eq_outside_def)
  show "eq_outside t n (negate a self) (negate b self)"
    using assms(1) s by (simp add: defs eq_outside_def)
  show "eq_outside t n (assignAdd_num a self x) (assignAdd_num b self x)"
    using assms(1) s by (simp add: defs eq_outside_def)
  show "eq_outside t n (assignAdd_dual a self d) (assignAdd_dual b self d)"
    using assms(1) r r0 s by (simp add: defs eq_outside_def)
  show "eq_outside t n (assignAdd_ndm a self x d) (assignAdd_ndm b self x d)"
    using assms(1) r r0 s by (simp add: defs eq_outside_def)
  show "eq_outside t n (assignMul_num a self x) (assignMul_num b self x)"
    using assms(1) s by (simp add: defs eq_outside_def)
  show "eq_outside t n (assignMul_dual a self d) (assignMul_dual b self d)"
    using assms(1) r r0 s by (simp add: defs eq_outside_def)
  show "eq_outside t n (assignMul_ndm a self x d) (assignMul_ndm b self x d)"
    using assms(1) r r0 s by (simp add: defs eq_outside_def)
  show "same_outcome t n (apply_cell op a self) (apply_cell op b self)"
    using u s by (cases "apply_op op (b self)") (simp_all add: apply_cell_def bnd_simps so_simps)
  show "same_outcome t n (assignPow_num a self x) (assignPow_num b self x)"
    using assms(1) s
    by (auto simp add: defs eq_outside_def bnd_def same_outcome_def split: sum.splits)
  show "same_outcome t n (assignPow_dual a self d) (assignPow_dual b self d)"
    using assms(1) r r0 s
    by (auto simp add: defs eq_outside_def bnd_def same_outcome_def split: sum.splits)
qed


lemma prim_eqo0:
  assumes "eq_outside t n a b" "self \<noteq> t" "\<not> tmp_from n self"
  shows "eq_outside t n (assign_num a self x) (assign_num b self x)"
    "eq_outside t n (scale a self x) (scale b self x)"
    "eq_outside t n (negate a self) (negate b self)"
    "eq_outside t n (assignAdd_num a self x) (assignAdd_num b self x)"
    "eq_outside t n (assignMul_num a self x) (assignMul_num b self x)"
    "same_outcome t n (apply_cell op a self) (apply_cell op b self)"
    "same_outcome t n (assignPow_num a self x) (assignPow_num b self x)"
  using prim_eqo[OF assms, of "Held Dual0"] by simp_all

lemma assign_char:
  assumes "\<not> tmp_from n t" "t \<notin> refs e" "\<forall>c\<in>refs e. \<not> tmp_from n c" "well_formed e"
  shows "(\<exists>f. ref_eval a e = Inl f \<and> assign a t e n = Inl f)
       \<or> (\<exists>x. ref_eval a e = Inr (x t) \<and> assign a t e n = Inr x
              \<and> (\<forall>c. c \<noteq> t \<longrightarrow> \<not> tmp_from n c \<longrightarrow> x c = a c))"
proof (cases "assign a t e n")
  case (Inl f)
  with value_all(1)[OF assms, of a] have "ref_eval a e = Inl f" by (simp add: target_simps)
  with Inl show ?thesis by simp
next
  case (Inr x)
  with value_all(1)[OF assms, of a] have "ref_eval a e = Inr (x t)" by (simp add: target_simps)
  moreover have "\<forall>c. c \<noteq> t \<longrightarrow> \<not> tmp_from n c \<longrightarrow> x c = a c"
    using frame_all(1)[OF Inr] by blast
  ultimately show ?thesis using Inr by simp
qed

lemma eval_char:
  assumes "\<forall>c\<in>refs e. \<not> tmp_from n c" "well_formed e" "is_expr e"
  shows "(\<exists>f. ref_eval a e = Inl f \<and> eval a e n = Inl f)
       \<or> (\<exists>x. ref_eval a e = Inr (x (Tmp n)) \<and> eval a e n = Inr x
              \<and> (\<forall>c. \<not> tmp_from n c \<longrightarrow> x c = a c))"
proof (cases "eval a e n")
  case (Inl f)
  with value_all(3)[OF assms, of a] have "ref_eval a e = Inl f" by (simp add: target_simps)
  with Inl show ?thesis by simp
next
  case (Inr x)
  with value_all(3)[OF assms, of a] have "ref_eval a e = Inr (x (Tmp n))" by (simp add: target_simps)
  moreover have "\<forall>c. \<not> tmp_from n c \<longrightarrow> x c = a c"
    using frame_all(3)[OF Inr] by blast
  ultimately show ?thesis using Inr by simp
qed

lemma gen_acc:
  assumes eq: "eq_outside t n a b"
    and pre: "\<not> tmp_from n self" "\<not> tmp_from n t" "t \<noteq> self" "t \<notin> refs e"
      "\<forall>c\<in>refs e. \<not> tmp_from n c" "well_formed e"
  shows "same_outcome t n
      (case assign a t e n of Inl f \<Rightarrow> Inl f | Inr x \<Rightarrow> Inr (assignAdd_dual x self (Ref t)))
      (case assign (b(Tmp n := Dual0)) (Tmp n) e (Suc n) of Inl f \<Rightarrow> Inl f
       | Inr y \<Rightarrow> Inr (assignAdd_dual y self (Ref (Tmp n))))"
    and "same_outcome t n
      (case assign a t e n of Inl f \<Rightarrow> Inl f | Inr x \<Rightarrow> Inr (assignMul_dual x self (Ref t)))
      (case assign (b(Tmp n := Dual0)) (Tmp n) e (Suc n) of Inl f \<Rightarrow> Inl f
       | Inr y \<Rightarrow> Inr (assignMul_dual y self (Ref (Tmp n))))"
    and "same_outcome t n
      (case assign a t e n of Inl f \<Rightarrow> Inl f | Inr x \<Rightarrow> assignPow_dual x self (Ref t))
      (case assign b (Tmp n) e (Suc n) of Inl f \<Rightarrow> Inl f
       | Inr y \<Rightarrow> assignPow_dual y self (Ref (Tmp n)))"
proof -
  let ?b = "b(Tmp n := Dual0)"
  have tn: "Tmp n \<notin> refs e" "\<forall>c\<in>refs e. \<not> tmp_from (Suc n) c" "\<not> tmp_from (Suc n) (Tmp n)"
    "Tmp n \<noteq> self" "Tmp n \<noteq> t" "\<not> tmp_from (Suc n) self" "self \<noteq> Tmp n" "self \<noteq> t"
    using pre by (auto simp: tmp_notin dest: tmp_from_Suc tmp_from_neq)
  have r1: "ref_eval a e = ref_eval b e" using ref_eval_eqo[OF eq pre(4,5)] .
  have r2: "ref_eval ?b e = ref_eval b e" using tn(1) by (simp add: ref_eval_upd)
  have sf: "a self = b self" using eq pre by (simp add: eq_outside_def)
  have eqc: "\<And>c. c \<noteq> t \<Longrightarrow> \<not> tmp_from n c \<Longrightarrow> a c = b c \<and> c \<noteq> Tmp n \<and> \<not> tmp_from (Suc n) c"
    using eq by (auto simp: eq_outside_def dest: tmp_from_Suc)
  note A = assign_char[OF pre(2,4,5,6), of a]
  note B = assign_char[OF tn(3,1,2) pre(6), of ?b]
  note B0 = assign_char[OF tn(3,1,2) pre(6), of b]
  show "same_outcome t n
      (case assign a t e n of Inl f \<Rightarrow> Inl f | Inr x \<Rightarrow> Inr (assignAdd_dual x self (Ref t)))
      (case assign ?b (Tmp n) e (Suc n) of Inl f \<Rightarrow> Inl f
       | Inr y \<Rightarrow> Inr (assignAdd_dual y self (Ref (Tmp n))))"
    using A B r1 r2 sf tn eqc pre(1,2)
    by (auto simp: so_simps assignAdd_dual_eq eq_outside_def)
  show "same_outcome t n
      (case assign a t e n of Inl f \<Rightarrow> Inl f | Inr x \<Rightarrow> Inr (assignMul_dual x self (Ref t)))
      (case assign ?b (Tmp n) e (Suc n) of Inl f \<Rightarrow> Inl f
       | Inr y \<Rightarrow> Inr (assignMul_dual y self (Ref (Tmp n))))"
    using A B r1 r2 sf tn eqc pre(1,2)
    by (auto simp: so_simps assignMul_dual_eq eq_outside_def)
  show "same_outcome t n
      (case assign a t e n of Inl f \<Rightarrow> Inl f | Inr x \<Rightarrow> assignPow_dual x self (Ref t))
      (case assign b (Tmp n) e (Suc n) of Inl f \<Rightarrow> Inl f
       | Inr y \<Rightarrow> assignPow_dual y self (Ref (Tmp n)))"
    using A B0 r1 sf tn eqc pre(1,2)
    by (auto simp: so_simps assignPow_dual_eq eq_outside_def same_outcome_def bnd_def
            split: sum.splits)
qed


lemma neg_acc:
  assumes eq: "eq_outside t n a b"
    and pre: "\<not> tmp_from n self" "\<not> tmp_from n t" "t \<noteq> self" "t \<notin> refs r"
      "\<forall>c\<in>refs r. \<not> tmp_from n c" "well_formed r" "is_expr r"
  shows "same_outcome t n
      (case eval a r n of Inl f \<Rightarrow> Inl f
       | Inr s1 \<Rightarrow> Inr (assignAddNegativeDual (assign_dual s1 t (Ref (Tmp n))) self (Ref t)))
      (case eval b r n of Inl f \<Rightarrow> Inl f
       | Inr s1 \<Rightarrow> Inr (assignAddNegativeDual s1 self (Ref (Tmp n))))"
    and "same_outcome t n
      (case eval a r n of Inl f \<Rightarrow> Inl f
       | Inr s1 \<Rightarrow> assignAddInverseDual (assign_dual s1 t (Ref (Tmp n))) self (Ref t))
      (case eval b r n of Inl f \<Rightarrow> Inl f
       | Inr s1 \<Rightarrow> assignAddInverseDual s1 self (Ref (Tmp n)))"
proof -
  have tn: "Tmp n \<noteq> self" "Tmp n \<noteq> t" "self \<noteq> Tmp n" "self \<noteq> t" "t \<noteq> Tmp n"
    using pre by (auto dest: tmp_from_neq)
  have r1: "ref_eval a r = ref_eval b r" using ref_eval_eqo[OF eq pre(4,5)] .
  have sf: "a self = b self" using eq pre by (simp add: eq_outside_def)
  have eqc: "\<And>c. c \<noteq> t \<Longrightarrow> \<not> tmp_from n c \<Longrightarrow> a c = b c \<and> c \<noteq> Tmp n"
    using eq by (auto simp: eq_outside_def)
  note A = eval_char[OF pre(5,6,7), of a]
  note B = eval_char[OF pre(5,6,7), of b]
  have nd: "\<And>s d. self \<notin> operand_refs d \<Longrightarrow>
      assignAddNegativeDual s self d
        = s(self := dual_add (s self) \<lparr>val = - val (rd s d), grad = - grad (rd s d)\<rparr>)"
    by (rule ext) (simp add: assignAddNegativeDual_def Let_def setters_simps dual_add_def rd_set_val)
  show "same_outcome t n
      (case eval a r n of Inl f \<Rightarrow> Inl f
       | Inr s1 \<Rightarrow> Inr (assignAddNegativeDual (assign_dual s1 t (Ref (Tmp n))) self (Ref t)))
      (case eval b r n of Inl f \<Rightarrow> Inl f
       | Inr s1 \<Rightarrow> Inr (assignAddNegativeDual s1 self (Ref (Tmp n))))"
    using A B r1 sf tn eqc pre(1,2)
    by (auto simp: so_simps nd assign_dual_eq eq_outside_def)
  show "same_outcome t n
      (case eval a r n of Inl f \<Rightarrow> Inl f
       | Inr s1 \<Rightarrow> assignAddInverseDual (assign_dual s1 t (Ref (Tmp n))) self (Ref t))
      (case eval b r n of Inl f \<Rightarrow> Inl f
       | Inr s1 \<Rightarrow> assignAddInverseDual s1 self (Ref (Tmp n)))"
    using A B r1 sf tn eqc pre(1,2)
    by (auto simp: so_simps assignAddInverseDual_eq assign_dual_eq eq_outside_def
        same_outcome_def bnd_def split: sum.splits)
qed

lemma shapes_sim:
  "eq_outside t n a b \<Longrightarrow> \<not> tmp_from n self \<Longrightarrow> \<not> tmp_from n t \<Longrightarrow> t \<noteq> self \<Longrightarrow> t \<notin> refs e \<Longrightarrow>
   (\<forall>c\<in>refs e. \<not> tmp_from n c) \<Longrightarrow> well_formed e \<Longrightarrow>
     same_outcome t n (assign_tmp a self e t n) (assign b self e n)
   \<and> same_outcome t n (assignAdd_tmp a self e t n) (assignAdd b self e n)
   \<and> same_outcome t n (assignMul_tmp a self e t n) (assignMul b self e n)
   \<and> same_outcome t n (assignPow_tmp a self e t n) (assignPow b self e n)"
proof (induction e arbitrary: a b)
  case (Number x)
  then show ?case by (simp add: so_simps prim_eqo prim_eqo0)
next
  case (DualExpr x)
  then show ?case by (simp add: so_simps prim_eqo prim_eqo0)
next
  case (NumberDualMulExpr x1 x2)
  then show ?case
    using gen_acc(3)[of t n a b self "NumberDualMulExpr x1 x2"]
    by (auto simp add: so_simps prim_eqo prim_eqo0)
next
  case (UnaryExpr op r)
  note p = UnaryExpr.prems
  from p have pr: "t \<notin> refs r" "\<forall>c\<in>refs r. \<not> tmp_from n c" "well_formed r" "is_expr r"
    by simp_all
  note ih = UnaryExpr.IH[OF _ p(2,3,4) pr(1,2,3)]
  note ga = gen_acc[OF p]
  note na = neg_acc[OF p(1,2,3,4) pr]
  have c1: "same_outcome t n (assign_tmp a self (UnaryExpr op r) t n) (assign b self (UnaryExpr op r) n)"
    using ih[OF p(1)] p by (simp, intro so_case) (simp_all add: prim_eqo0)
  have c2: "same_outcome t n (assignAdd_tmp a self (UnaryExpr op r) t n) (assignAdd b self (UnaryExpr op r) n)"
    using ga(1) na by (simp del: assign.simps)
  have c3: "same_outcome t n (assignMul_tmp a self (UnaryExpr op r) t n) (assignMul b self (UnaryExpr op r) n)"
  proof (cases "op = NegOp")
    case True
    then show ?thesis
      using ih[OF p(1)] p by (simp, intro so_case) (simp_all add: prim_eqo0 so_simps)
  next
    case False
    then show ?thesis using ga(2) by (simp del: assign.simps)
  qed
  have c4: "same_outcome t n (assignPow_tmp a self (UnaryExpr op r) t n) (assignPow b self (UnaryExpr op r) n)"
    using ga(3) by (simp del: assign.simps)
  from c1 c2 c3 c4 show ?case by simp
next
  case (AddExpr l r)
  note p = AddExpr.prems
  from p have pl: "t \<notin> refs l" "\<forall>c\<in>refs l. \<not> tmp_from n c" "well_formed l"
    and pr: "t \<notin> refs r" "\<forall>c\<in>refs r. \<not> tmp_from n c" "well_formed r"
    by simp_all
  note ihl = AddExpr.IH(1)[OF _ p(2,3,4) pl]
  note ihr = AddExpr.IH(2)[OF _ p(2,3,4) pr]
  note ga = gen_acc[OF p]
  have c1: "same_outcome t n (assign_tmp a self (AddExpr l r) t n) (assign b self (AddExpr l r) n)"
    using ihr[OF p(1)] ihl by (simp, intro so_case) simp_all
  have c2: "same_outcome t n (assignAdd_tmp a self (AddExpr l r) t n) (assignAdd b self (AddExpr l r) n)"
    using ihl[OF p(1)] ihr by (simp, intro so_case) simp_all
  have c3: "same_outcome t n (assignMul_tmp a self (AddExpr l r) t n) (assignMul b self (AddExpr l r) n)"
    using ga(2) by (simp del: assign.simps)
  have c4: "same_outcome t n (assignPow_tmp a self (AddExpr l r) t n) (assignPow b self (AddExpr l r) n)"
    using ga(3) by (simp del: assign.simps)
  from c1 c2 c3 c4 show ?case by simp
next
  case (MulExpr l r)
  note p = MulExpr.prems
  from p have pl: "t \<notin> refs l" "\<forall>c\<in>refs l. \<not> tmp_from n c" "well_formed l"
    and pr: "t \<notin> refs r" "\<forall>c\<in>refs r. \<not> tmp_from n c" "well_formed r"
    by simp_all
  note ihl = MulExpr.IH(1)[OF _ p(2,3,4) pl]
  note ihr = MulExpr.IH(2)[OF _ p(2,3,4) pr]
  note ga = gen_acc[OF p]
  have c1: "same_outcome t n (assign_tmp a self (MulExpr l r) t n) (assign b self (MulExpr l r) n)"
    using ihr[OF p(1)] ihl by (simp, intro so_case) simp_all
  have c2: "same_outcome t n (assignAdd_tmp a self (MulExpr l r) t n) (assignAdd b self (MulExpr l r) n)"
    using ga(1) by (simp del: assign.simps)
  have c3: "same_outcome t n (assignMul_tmp a self (MulExpr l r) t n) (assignMul b self (MulExpr l r) n)"
    using ihl[OF p(1)] ihr by (simp, intro so_case) simp_all
  have c4: "same_outcome t n (assignPow_tmp a self (MulExpr l r) t n) (assignPow b self (MulExpr l r) n)"
    using ga(3) by (simp del: assign.simps)
  from c1 c2 c3 c4 show ?case by simp
next
  case (PowExpr l r)
  note p = PowExpr.prems
  from p have pl: "t \<notin> refs l" "\<forall>c\<in>refs l. \<not> tmp_from n c" "well_formed l"
    and pr: "t \<notin> refs r" "\<forall>c\<in>refs r. \<not> tmp_from n c" "well_formed r"
    by simp_all
  note ihl = PowExpr.IH(1)[OF _ p(2,3,4) pl]
  note ihr = PowExpr.IH(2)[OF _ p(2,3,4) pr]
  note ga = gen_acc[OF p]
  have c1: "same_outcome t n (assign_tmp a self (PowExpr l r) t n) (assign b self (PowExpr l r) n)"
    using ihl[OF p(1)] ihr by (simp, intro so_case) simp_all
  have c2: "same_outcome t n (assignAdd_tmp a self (PowExpr l r) t n) (assignAdd b self (PowExpr l r) n)"
    using ga(1) by (simp del: assign.simps)
  have c3: "same_outcome t n (assignMul_tmp a self (PowExpr l r) t n) (assignMul b self (PowExpr l r) n)"
    using ga(2) by (simp del: assign.simps)
  have c4: "same_outcome t n (assignPow_tmp a self (PowExpr l r) t n) (assignPow b self (PowExpr l r) n)"
    using ga(3) by (simp del: assign.simps)
  from c1 c2 c3 c4 show ?case by simp
qed

lemma refs_by_value: "refs (by_value s e) \<subseteq> refs e"
  by (cases e) simp_all

lemma well_formed_by_value: "well_formed (by_value s e) = well_formed e"
  by (cases e) simp_all

lemma refs_inverse_expr: "refs (inverse_expr s e) \<subseteq> refs e"
  using refs_by_value by (cases e) auto

lemma well_formed_inverse_expr:
  "well_formed e \<Longrightarrow> is_expr e \<Longrightarrow> well_formed (inverse_expr s e)"
  by (cases e) (simp_all add: well_formed_by_value)

lemma eq_outside_refl: "eq_outside t n s s"
  by (simp add: eq_outside_def)

lemma so_target:
  "same_outcome t n m m2 \<Longrightarrow> c \<noteq> t \<Longrightarrow> \<not> tmp_from n c \<Longrightarrow> target c m = target c m2"
  by (cases m; cases m2) (auto simp add: so_simps target_simps eq_outside_def)

lemma shapes_target:
  assumes "\<not> tmp_from n self" "\<not> tmp_from n t" "t \<noteq> self" "t \<notin> refs e"
    "\<forall>c\<in>refs e. \<not> tmp_from n c" "well_formed e"
  shows "target self (assign_tmp s self e t n) = target self (assign s self e n)"
    and "target self (assignAdd_tmp s self e t n) = target self (assignAdd s self e n)"
    and "target self (assignMul_tmp s self e t n) = target self (assignMul s self e n)"
    and "target self (assignPow_tmp s self e t n) = target self (assignPow s self e n)"
  using shapes_sim[OF eq_outside_refl assms(1,2,3,4,5,6), of s] assms(1,3)
  by (auto intro!: so_target)

lemma shapes_sub:
  assumes "\<not> tmp_from n self" "\<not> tmp_from n t" "t \<noteq> self" "t \<notin> refs e"
    "\<forall>c\<in>refs e. \<not> tmp_from n c" "well_formed e"
  shows "target self (assignSub_tmp s self e t n) = target self (assignSub s self e n)"
proof (cases e)
  case (UnaryExpr op r)
  show ?thesis
  proof (cases "op = NegOp")
    case True
    have "target self (assignAdd_tmp s self (by_value s r) t n)
        = target self (assignAdd s self (by_value s r) n)"
      using assms UnaryExpr refs_by_value[of s r]
      by (intro shapes_target(2)) (auto simp add: well_formed_by_value)
    with True UnaryExpr show ?thesis by (simp add: bnd_simps)
  next
    case False
    with UnaryExpr show ?thesis by (simp add: bnd_simps)
  qed
qed (simp_all add: bnd_simps)

lemma shapes_div:
  assumes "\<not> tmp_from n self" "\<not> tmp_from n t" "t \<noteq> self" "t \<notin> refs e"
    "\<forall>c\<in>refs e. \<not> tmp_from n c" "well_formed e"
  shows "target self (assignDiv_tmp s self e t n) = target self (assignDiv s self e n)"
proof (cases "is_expr e \<and> (\<forall>d. e \<noteq> DualExpr d)")
  case True
  have "target self (assignMul_tmp s self (inverse_expr s e) t n)
      = target self (assignMul s self (inverse_expr s e) n)"
    using assms True refs_inverse_expr[of s e]
    by (intro shapes_target(3)) (auto simp add: well_formed_inverse_expr)
  with True show ?thesis by (cases e) simp_all
next
  case False
  then show ?thesis by (cases e) simp_all
qed

text \<open>
  C2. For every well-formed tree \<open>e\<close> of the caller, every target \<open>x\<close> (to which the tree
  may refer) and every scratch dual \<open>y\<close> other than \<open>x\<close> to which the tree does not
  refer, each of \<open>assign\<close>, \<open>assignAdd\<close>, \<open>assignSub\<close>, \<open>assignMul\<close>, \<open>assignDiv\<close>
  and \<open>assignPow\<close> leaves the same val and grad in \<open>x\<close>, or fails alike, in the call
  shape with the scratch dual and in the call shape without.
\<close>

theorem call_shapes_agree:
  assumes "well_formed e" and "user_expr e" and "y \<noteq> x" and "Var y \<notin> refs e"
  shows "target (Var x) (assign_tmp s (Var x) e (Var y) n) = target (Var x) (assign s (Var x) e n)
       \<and> target (Var x) (assignAdd_tmp s (Var x) e (Var y) n) = target (Var x) (assignAdd s (Var x) e n)
       \<and> target (Var x) (assignSub_tmp s (Var x) e (Var y) n) = target (Var x) (assignSub s (Var x) e n)
       \<and> target (Var x) (assignMul_tmp s (Var x) e (Var y) n) = target (Var x) (assignMul s (Var x) e n)
       \<and> target (Var x) (assignDiv_tmp s (Var x) e (Var y) n) = target (Var x) (assignDiv s (Var x) e n)
       \<and> target (Var x) (assignPow_tmp s (Var x) e (Var y) n) = target (Var x) (assignPow s (Var x) e n)"
proof -
  have p: "\<not> tmp_from n (Var x)" "\<not> tmp_from n (Var y)" "Var y \<noteq> Var x" "Var y \<notin> refs e"
    "\<forall>c\<in>refs e. \<not> tmp_from n c" "well_formed e"
    using assms user_no_tmp[OF assms(2), of n] by simp_all
  show ?thesis
    using shapes_target[OF p, of s] shapes_sub[OF p, of s] shapes_div[OF p, of s] by blast
qed

theorem call_shapes_agree_witness:
  "well_formed (AddExpr (DualExpr (Ref (Var 0))) (UnaryExpr SinOp (DualExpr (Ref (Var 1)))))
   \<and> user_expr (AddExpr (DualExpr (Ref (Var 0))) (UnaryExpr SinOp (DualExpr (Ref (Var 1)))))
   \<and> (2 :: nat) \<noteq> 0
   \<and> Var 2 \<notin> refs (AddExpr (DualExpr (Ref (Var 0))) (UnaryExpr SinOp (DualExpr (Ref (Var 1)))))
   \<and> target (Var 0) (assignMul_tmp (\<lambda>c. \<lparr>val = 2, grad = 1\<rparr>) (Var 0)
        (AddExpr (DualExpr (Ref (Var 0))) (UnaryExpr SinOp (DualExpr (Ref (Var 1))))) (Var 2) 0)
     = target (Var 0) (assignMul (\<lambda>c. \<lparr>val = 2, grad = 1\<rparr>) (Var 0)
        (AddExpr (DualExpr (Ref (Var 0))) (UnaryExpr SinOp (DualExpr (Ref (Var 1))))) 0)"
proof -
  let ?e = "AddExpr (DualExpr (Ref (Var 0))) (UnaryExpr SinOp (DualExpr (Ref (Var 1))))"
  have h: "well_formed ?e" "user_expr ?e" "(2 :: nat) \<noteq> 0" "Var 2 \<notin> refs ?e"
    by (simp_all add: user_expr_def)
  from call_shapes_agree[OF h, of "\<lambda>c. \<lparr>val = 2, grad = 1\<rparr>" 0] h show ?thesis by blast
qed

section \<open>Products of negations\<close>

lemma ref_by_value: "ref_eval s (by_value s e) = ref_eval s e"
  by (cases e) simp_all

lemma inv_inv:
  "ref_apply InvOp q = Inr m \<Longrightarrow> ref_apply InvOp m = Inr q"
  by (auto simp: ref_apply_def bnd_def power2_eq_square field_simps split: if_splits)

lemma bnd_InrD: "bnd m f = Inr y \<Longrightarrow> \<exists>a. m = Inr a \<and> f a = Inr y"
  by (cases m) (simp_all add: bnd_simps)

lemma ref_inverse_expr:
  assumes h: "bnd (ref_eval s e) (ref_apply InvOp) = Inr d"
  shows "ref_eval s (inverse_expr s e) = Inr d"
proof (cases e)
  case (UnaryExpr op r)
  show ?thesis
  proof (cases "op = InvOp")
    case True
    from bnd_InrD[OF h] obtain m where m: "ref_eval s e = Inr m" "ref_apply InvOp m = Inr d"
      by blast
    from m(1) True UnaryExpr have "bnd (ref_eval s r) (ref_apply InvOp) = Inr m" by simp
    from bnd_InrD[OF this] obtain q where q: "ref_eval s r = Inr q" "ref_apply InvOp q = Inr m"
      by blast
    from inv_inv[OF q(2)] m(2) have "d = q" by simp
    with q(1) True UnaryExpr show ?thesis by (simp add: ref_by_value)
  next
    case False
    with h UnaryExpr show ?thesis by simp
  qed
qed (use h in simp_all)

lemma mul_num_neg:
  "bnd (bnd A (ref_apply NegOp)) (\<lambda>b. Inr (dual_mul \<lparr>val = a, grad = 0\<rparr> b))
     = bnd A (\<lambda>b. Inr (dual_mul \<lparr>val = - a, grad = 0\<rparr> b))"
  by (cases A) (simp_all add: bnd_simps ref_apply_def dual_mul_def)

lemma mul_neg_neg:
  "bnd (bnd A (ref_apply NegOp)) (\<lambda>a. bnd (bnd B (ref_apply NegOp)) (\<lambda>b. Inr (dual_mul a b)))
     = bnd A (\<lambda>a. bnd B (\<lambda>b. Inr (dual_mul a b)))"
  by (cases A; cases B) (simp_all add: bnd_simps ref_apply_def dual_mul_def)

lemma mul_inv_inv:
  "bnd (bnd A (ref_apply InvOp)) (\<lambda>a. bnd (bnd B (ref_apply InvOp)) (\<lambda>b. Inr (dual_mul a b)))
     = Inr d \<Longrightarrow>
   \<exists>m. bnd A (\<lambda>a. bnd B (\<lambda>b. Inr (dual_mul a b))) = Inr m \<and> ref_apply InvOp m = Inr d"
  by (cases A; cases B)
     (auto simp add: bnd_simps ref_apply_def dual_mul_def power2_eq_square field_simps
        split: if_splits)

lemma op_mul_sem:
  "ref_eval s (MulExpr a b) = Inr d \<Longrightarrow> ref_eval s (op_mul s a b) = Inr d"
proof (induction s a b arbitrary: d rule: op_mul.induct)
qed (auto simp add: bnd_simps mul_num_neg mul_neg_neg ref_by_value
      intro!: ref_inverse_expr dest!: mul_inv_inv,
    simp_all add: dual_mul_def mult.commute)

text \<open>
  C7. The product \<open>(-a) * (-b)\<close> is built as the product \<open>a * b\<close>: the same tree, hence
  the same reduction in both call shapes. The rewrite keeps the value and the derivative:
  the reference evaluator gives \<open>(-a) * (-b)\<close> and \<open>a * b\<close> the same dual, the tree built
  for \<open>(-a) * (-b)\<close> has the dual of the unrewritten product whenever that exists, and for
  two variables \<open>x\<close> and \<open>y\<close> the assignment of \<open>(-x) * (-y)\<close> to a third variable
  leaves the product \<open>x * y\<close> of the two duals there.
\<close>

theorem negation_product_cancels:
  "op_mul c (UnaryExpr NegOp a) (UnaryExpr NegOp b) = op_mul c a b
   \<and> assign s self (op_mul c (UnaryExpr NegOp a) (UnaryExpr NegOp b)) n
       = assign s self (op_mul c a b) n
   \<and> assign_tmp s self (op_mul c (UnaryExpr NegOp a) (UnaryExpr NegOp b)) t n
       = assign_tmp s self (op_mul c a b) t n
   \<and> ref_eval s (MulExpr (UnaryExpr NegOp a) (UnaryExpr NegOp b)) = ref_eval s (MulExpr a b)
   \<and> (ref_eval s (MulExpr (UnaryExpr NegOp a) (UnaryExpr NegOp b)) = Inr d \<longrightarrow>
        ref_eval s (op_mul s (UnaryExpr NegOp a) (UnaryExpr NegOp b)) = Inr d)
   \<and> (z \<noteq> x \<and> z \<noteq> y \<longrightarrow>
        target (Var z) (Dual_assign s z
          (op_mul s (UnaryExpr NegOp (DualExpr (Ref (Var x)))) (UnaryExpr NegOp (DualExpr (Ref (Var y))))))
          = Inr (dual_mul (s (Var x)) (s (Var y))))"
proof -
  have 1: "ref_eval s (MulExpr (UnaryExpr NegOp a) (UnaryExpr NegOp b)) = ref_eval s (MulExpr a b)"
    by (simp add: mul_neg_neg)
  have 2: "ref_eval s (op_mul s (UnaryExpr NegOp a) (UnaryExpr NegOp b)) = Inr d"
    if "ref_eval s (MulExpr (UnaryExpr NegOp a) (UnaryExpr NegOp b)) = Inr d"
    using that op_mul_sem[of s a b d] unfolding 1 by simp
  have 3: "target (Var z) (Dual_assign s z
          (op_mul s (UnaryExpr NegOp (DualExpr (Ref (Var x)))) (UnaryExpr NegOp (DualExpr (Ref (Var y))))))
          = Inr (dual_mul (s (Var x)) (s (Var y)))" if "z \<noteq> x" "z \<noteq> y"
    using that
    by (simp add: Dual_assign_def bnd_simps target_simps assign_dual_def assignMul_dual_def
        setters_simps Let_def dual_mul_def)
  from 1 2 3 show ?thesis by simp
qed

theorem negation_product_cancels_witness:
  "ref_eval ((\<lambda>c. Dual0)(Var 0 := \<lparr>val = 2, grad = 1\<rparr>, Var 1 := \<lparr>val = 3, grad = 1\<rparr>))
      (MulExpr (UnaryExpr NegOp (DualExpr (Ref (Var 0)))) (UnaryExpr NegOp (DualExpr (Ref (Var 1)))))
     = Inr \<lparr>val = 6, grad = 5\<rparr>
   \<and> (2 :: nat) \<noteq> 0 \<and> (2 :: nat) \<noteq> 1
   \<and> ref_eval ((\<lambda>c. Dual0)(Var 0 := \<lparr>val = 2, grad = 1\<rparr>, Var 1 := \<lparr>val = 3, grad = 1\<rparr>))
      (op_mul ((\<lambda>c. Dual0)(Var 0 := \<lparr>val = 2, grad = 1\<rparr>, Var 1 := \<lparr>val = 3, grad = 1\<rparr>))
         (UnaryExpr NegOp (DualExpr (Ref (Var 0)))) (UnaryExpr NegOp (DualExpr (Ref (Var 1)))))
     = Inr \<lparr>val = 6, grad = 5\<rparr>
   \<and> target (Var 2) (Dual_assign
        ((\<lambda>c. Dual0)(Var 0 := \<lparr>val = 2, grad = 1\<rparr>, Var 1 := \<lparr>val = 3, grad = 1\<rparr>)) 2
        (op_mul ((\<lambda>c. Dual0)(Var 0 := \<lparr>val = 2, grad = 1\<rparr>, Var 1 := \<lparr>val = 3, grad = 1\<rparr>))
           (UnaryExpr NegOp (DualExpr (Ref (Var 0)))) (UnaryExpr NegOp (DualExpr (Ref (Var 1))))))
     = Inr \<lparr>val = 6, grad = 5\<rparr>"
proof -
  let ?S = "(\<lambda>c. Dual0)(Var 0 := \<lparr>val = 2, grad = 1\<rparr>, Var 1 := \<lparr>val = 3, grad = 1\<rparr>)"
  let ?a = "DualExpr (Ref (Var 0))"
  let ?b = "DualExpr (Ref (Var 1))"
  have h: "ref_eval ?S (MulExpr (UnaryExpr NegOp ?a) (UnaryExpr NegOp ?b)) = Inr \<lparr>val = 6, grad = 5\<rparr>"
    by (simp add: bnd_simps ref_apply_def dual_mul_def)
  have k: "(2 :: nat) \<noteq> 0" "(2 :: nat) \<noteq> 1" by simp_all
  note t = negation_product_cancels[of ?S ?a ?b ?S "Var 2" 0 "Var 3" "\<lparr>val = 6, grad = 5\<rparr>" 2 0 1]
  from t h have 1: "ref_eval ?S (op_mul ?S (UnaryExpr NegOp ?a) (UnaryExpr NegOp ?b))
      = Inr \<lparr>val = 6, grad = 5\<rparr>" by blast
  from t k have "target (Var 2) (Dual_assign ?S 2 (op_mul ?S (UnaryExpr NegOp ?a) (UnaryExpr NegOp ?b)))
      = Inr (dual_mul (?S (Var 0)) (?S (Var 1)))" by blast
  also have "\<dots> = Inr \<lparr>val = 6, grad = 5\<rparr>" by (simp add: dual_mul_def)
  finally show ?thesis using h 1 k by blast
qed

end
